theory Spec2Isabelle
  imports Main
begin

section \<open>The declarations of the two headers as data\<close>

text \<open>
  The repository is two C++ headers,
  \<^verbatim>\<open>src/autogator/dll/Thorlabs.MotionControl.KCube.LaserSource.h\<close> and
  \<^verbatim>\<open>src/autogator/dll/Thorlabs.MotionControl.KCube.Solenoid.h\<close>. Each holds one
  import/export macro, and one \<^verbatim>\<open>extern "C"\<close> block of enumerations, structs,
  packing pragmas and function prototypes. The embedding keeps every declaration of both
  blocks, in source order, and the functions below compute on them what a C++ compiler for
  Windows computes: enumerator values, the packing in force at a struct, field offsets and
  sizes, and the expansion of the import/export macro.
\<close>

subsection \<open>Types\<close>

text \<open>
  The type expressions that occur in the headers. \<^verbatim>\<open>__int16\<close>, \<^verbatim>\<open>__int32\<close> and
  \<^verbatim>\<open>__int64\<close> are written \<open>T_int16\<close>, \<open>T_int32\<close> and \<open>T_int64\<close>; the solenoid header
  uses both \<^verbatim>\<open>BYTE\<close> and \<^verbatim>\<open>byte\<close>. \<open>T_named\<close> is a use of an enum or struct name
  declared in the header.
\<close>

datatype ctype =
    T_void | T_bool | T_char | T_short | T_int | T_long
  | T_unsigned_int | T_unsigned_short
  | T_int16 | T_int32 | T_int64
  | T_BYTE | T_byte | T_WORD | T_DWORD
  | T_SAFEARRAY
  | T_named string
  | T_const ctype
  | T_ptr ctype
  | T_ref ctype
  | T_funptr ctype "ctype list"
  | T_array ctype nat

subsection \<open>Enumerations\<close>

text \<open>
  An enumerator is a name with an optional initialiser; \<open>underlying\<close> is the type after the
  colon in \<^verbatim>\<open>typedef enum E : short\<close>, when there is one.
\<close>

record enum_decl =
  ename :: string
  underlying :: "ctype option"
  enumerators :: "(string \<times> int option) list"

text \<open>
  The value of an enumerator is its initialiser, and without one the value of the
  enumerator before it plus one, starting from 0.
\<close>

fun assign_values :: "int \<Rightarrow> (string \<times> int option) list \<Rightarrow> (string \<times> int) list" where
  "assign_values nxt [] = []"
| "assign_values nxt ((n, Some v) # r) = (n, v) # assign_values (v + 1) r"
| "assign_values nxt ((n, None) # r) = (n, nxt) # assign_values (nxt + 1) r"

definition enum_values :: "enum_decl \<Rightarrow> (string \<times> int) list" where
  "enum_values e = assign_values 0 (enumerators e)"

subsection \<open>Structs\<close>

record struct_decl =
  sname :: string
  members :: "(ctype \<times> string) list"

subsection \<open>Function declarations\<close>

datatype callconv = Cdecl | Stdcall | Fastcall

text \<open>
  What the \<^verbatim>\<open><returns>\<close> element of a function's documentation comment says.

  \<^item> \<open>NoReturns\<close>: the comment has no \<^verbatim>\<open><returns>\<close> element.
  \<^item> \<open>ErrorCodeOrZero\<close>: the text is
    \<^verbatim>\<open>The error code (see \ref C_DLL_ERRORCODES_page "Error Codes") or zero if successful.\<close>
    or the same with \<^verbatim>\<open>successfully requested\<close> for \<^verbatim>\<open>successful\<close>.
  \<^item> \<open>OneIfSuccessfulZeroIfNot\<close>: the text is \<^verbatim>\<open>1 if successful, 0 if not.\<close>
  \<^item> \<open>TrueIfSuccessfulFalseIfNot\<close>: the text is
    \<^verbatim>\<open><c>true</c> if successful, false if not.\<close>
  \<^item> \<open>ReturnsValue t\<close>: any other text; \<open>t\<close> is the text up to its first markup element.
\<close>

datatype returns_doc =
    NoReturns
  | ErrorCodeOrZero
  | OneIfSuccessfulZeroIfNot
  | TrueIfSuccessfulFalseIfNot
  | ReturnsValue string

text \<open>
  A function declaration as it is written: the import/export macro in front of it (if any),
  the return type, the calling-convention keyword (if any), the name and the parameters;
  with the \<^verbatim>\<open><summary>\<close> and \<^verbatim>\<open><returns>\<close> elements of the documentation comment
  above it.
\<close>

record fn_decl =
  api :: "string option"
  ret :: ctype
  callconv :: "callconv option"
  fname :: string
  params :: "(ctype \<times> string) list"
  summary :: string
  returns :: returns_doc

subsection \<open>The items of an \<^verbatim>\<open>extern "C"\<close> block\<close>

text \<open>
  \<open>PragmaPack (Some n)\<close> is \<^verbatim>\<open>#pragma pack(n)\<close> and \<open>PragmaPack None\<close> is
  \<^verbatim>\<open>#pragma pack()\<close>. A function is either declared by a prototype, which ends in a
  semicolon, or defined, with the text of its body.
\<close>

datatype item =
    PragmaPack "nat option"
  | EnumDecl enum_decl
  | StructDecl struct_decl
  | Prototype fn_decl
  | FunctionDefinition fn_decl string

fun has_body :: "item \<Rightarrow> bool" where
  "has_body (FunctionDefinition f b) = True"
| "has_body (PragmaPack p) = False"
| "has_body (EnumDecl e) = False"
| "has_body (StructDecl s) = False"
| "has_body (Prototype f) = False"

fun functions_of :: "item list \<Rightarrow> fn_decl list" where
  "functions_of [] = []"
| "functions_of (Prototype f # r) = f # functions_of r"
| "functions_of (FunctionDefinition f b # r) = f # functions_of r"
| "functions_of (PragmaPack p # r) = functions_of r"
| "functions_of (EnumDecl e # r) = functions_of r"
| "functions_of (StructDecl s # r) = functions_of r"

fun enums_of :: "item list \<Rightarrow> enum_decl list" where
  "enums_of [] = []"
| "enums_of (EnumDecl e # r) = e # enums_of r"
| "enums_of (Prototype f # r) = enums_of r"
| "enums_of (FunctionDefinition f b # r) = enums_of r"
| "enums_of (PragmaPack p # r) = enums_of r"
| "enums_of (StructDecl s # r) = enums_of r"

fun structs_of :: "item list \<Rightarrow> struct_decl list" where
  "structs_of [] = []"
| "structs_of (StructDecl s # r) = s # structs_of r"
| "structs_of (EnumDecl e # r) = structs_of r"
| "structs_of (Prototype f # r) = structs_of r"
| "structs_of (FunctionDefinition f b # r) = structs_of r"
| "structs_of (PragmaPack p # r) = structs_of r"

text \<open>The names of the enumerations and structs a block declares, in source order.\<close>

fun type_names :: "item list \<Rightarrow> string list" where
  "type_names [] = []"
| "type_names (EnumDecl e # r) = ename e # type_names r"
| "type_names (StructDecl s # r) = sname s # type_names r"
| "type_names (Prototype f # r) = type_names r"
| "type_names (FunctionDefinition f b # r) = type_names r"
| "type_names (PragmaPack p # r) = type_names r"

definition find_struct_decl :: "item list \<Rightarrow> string \<Rightarrow> struct_decl option" where
  "find_struct_decl h n = find (\<lambda>s. sname s = n) (structs_of h)"

definition find_enum :: "item list \<Rightarrow> string \<Rightarrow> enum_decl option" where
  "find_enum h n = find (\<lambda>e. ename e = n) (enums_of h)"

text \<open>
  The packing in force at each struct: \<open>cur\<close> is the current packing and \<open>dflt\<close> the
  compiler's default (the \<^verbatim>\<open>/Zp\<close> setting), which \<^verbatim>\<open>#pragma pack()\<close> restores.
\<close>

fun structs_with_pack :: "nat \<Rightarrow> nat \<Rightarrow> item list \<Rightarrow> (struct_decl \<times> nat) list" where
  "structs_with_pack dflt cur [] = []"
| "structs_with_pack dflt cur (PragmaPack (Some n) # r) = structs_with_pack dflt n r"
| "structs_with_pack dflt cur (PragmaPack None # r) = structs_with_pack dflt dflt r"
| "structs_with_pack dflt cur (StructDecl s # r) = (s, cur) # structs_with_pack dflt cur r"
| "structs_with_pack dflt cur (EnumDecl e # r) = structs_with_pack dflt cur r"
| "structs_with_pack dflt cur (Prototype f # r) = structs_with_pack dflt cur r"
| "structs_with_pack dflt cur (FunctionDefinition f b # r) = structs_with_pack dflt cur r"

definition find_struct :: "nat \<Rightarrow> item list \<Rightarrow> string \<Rightarrow> (struct_decl \<times> nat) option" where
  "find_struct dflt h n = find (\<lambda>(s, p). sname s = n) (structs_with_pack dflt dflt h)"

subsection \<open>Sizes, alignment and layout\<close>

text \<open>
  The sizes in bytes of the scalar types, as the Microsoft compiler (whose keywords
  \<^verbatim>\<open>__declspec\<close>, \<^verbatim>\<open>__cdecl\<close> and \<^verbatim>\<open>__int16\<close> the headers use) and the Windows
  SDK typedefs brought in by \<^verbatim>\<open>#include <OaIdl.h>\<close> fix them: \<^verbatim>\<open>BYTE\<close> and
  \<^verbatim>\<open>byte\<close> are \<^verbatim>\<open>unsigned char\<close>, \<^verbatim>\<open>WORD\<close> is \<^verbatim>\<open>unsigned short\<close>, \<^verbatim>\<open>DWORD\<close> is
  \<^verbatim>\<open>unsigned long\<close>, and \<^verbatim>\<open>long\<close> has 32 bits. Types that have no size of their own
  here (\<^verbatim>\<open>void\<close>, pointers, references, \<^verbatim>\<open>SAFEARRAY\<close>) give \<open>None\<close>; no struct of the
  headers has a field of such a type.
\<close>

fun scalar_size :: "ctype \<Rightarrow> nat option" where
  "scalar_size T_bool = Some 1"
| "scalar_size T_char = Some 1"
| "scalar_size T_BYTE = Some 1"
| "scalar_size T_byte = Some 1"
| "scalar_size T_short = Some 2"
| "scalar_size T_unsigned_short = Some 2"
| "scalar_size T_int16 = Some 2"
| "scalar_size T_WORD = Some 2"
| "scalar_size T_int = Some 4"
| "scalar_size T_unsigned_int = Some 4"
| "scalar_size T_long = Some 4"
| "scalar_size T_int32 = Some 4"
| "scalar_size T_DWORD = Some 4"
| "scalar_size T_int64 = Some 8"
| "scalar_size T_void = None"
| "scalar_size T_SAFEARRAY = None"
| "scalar_size (T_named n) = None"
| "scalar_size (T_const t) = None"
| "scalar_size (T_ptr t) = None"
| "scalar_size (T_ref t) = None"
| "scalar_size (T_funptr t ts) = None"
| "scalar_size (T_array t n) = None"

text \<open>
  An enumeration has the size of its underlying type, and of \<^verbatim>\<open>int\<close> when it names none.
\<close>

definition enum_size :: "enum_decl \<Rightarrow> nat option" where
  "enum_size e = scalar_size (case underlying e of None \<Rightarrow> T_int | Some u \<Rightarrow> u)"

fun sizeof :: "item list \<Rightarrow> ctype \<Rightarrow> nat option" where
  "sizeof h (T_array t n) = map_option (\<lambda>s. n * s) (sizeof h t)"
| "sizeof h (T_const t) = sizeof h t"
| "sizeof h (T_named n) = (case find_enum h n of None \<Rightarrow> None | Some e \<Rightarrow> enum_size e)"
| "sizeof h t = scalar_size t"

text \<open>The natural alignment: a scalar's size; an array's is that of its element.\<close>

fun alignof :: "item list \<Rightarrow> ctype \<Rightarrow> nat option" where
  "alignof h (T_array t n) = alignof h t"
| "alignof h (T_const t) = alignof h t"
| "alignof h (T_named n) = (case find_enum h n of None \<Rightarrow> None | Some e \<Rightarrow> enum_size e)"
| "alignof h t = scalar_size t"

definition align_up :: "nat \<Rightarrow> nat \<Rightarrow> nat" where
  "align_up off a = ((off + a - 1) div a) * a"

text \<open>
  Field placement: each field goes to the first offset at or after the end of the field
  before it that is a multiple of the smaller of the packing in force and the field's
  natural alignment. The result lists name, offset and size of every field.
\<close>

fun place_fields ::
  "item list \<Rightarrow> nat \<Rightarrow> nat \<Rightarrow> (ctype \<times> string) list \<Rightarrow> (string \<times> nat \<times> nat) list option" where
  "place_fields h pack off [] = Some []"
| "place_fields h pack off ((t, n) # fs) =
    (case (sizeof h t, alignof h t) of
       (Some sz, Some al) \<Rightarrow>
         (let off' = align_up off (min pack al) in
          map_option (\<lambda>r. (n, off', sz) # r) (place_fields h pack (off' + sz) fs))
     | (Some sz, None) \<Rightarrow> None
     | (None, al) \<Rightarrow> None)"

text \<open>
  The alignment of a struct is the largest alignment of its fields, capped by the packing;
  its size is the end of its last field rounded up to that alignment.
\<close>

fun struct_align :: "item list \<Rightarrow> nat \<Rightarrow> (ctype \<times> string) list \<Rightarrow> nat option" where
  "struct_align h pack [] = Some 1"
| "struct_align h pack ((t, n) # fs) =
    (case (alignof h t, struct_align h pack fs) of
       (Some al, Some a) \<Rightarrow> Some (max (min pack al) a)
     | (Some al, None) \<Rightarrow> None
     | (None, a) \<Rightarrow> None)"

fun fields_end :: "(string \<times> nat \<times> nat) list \<Rightarrow> nat" where
  "fields_end [] = 0"
| "fields_end ((n, off, sz) # r) = max (off + sz) (fields_end r)"

definition struct_size :: "item list \<Rightarrow> nat \<Rightarrow> struct_decl \<Rightarrow> nat option" where
  "struct_size h pack s =
    (case (place_fields h pack 0 (members s), struct_align h pack (members s)) of
       (Some pl, Some a) \<Rightarrow> Some (align_up (fields_end pl) a)
     | (Some pl, None) \<Rightarrow> None
     | (None, a) \<Rightarrow> None)"

text \<open>Offsets and size of the struct named \<open>n\<close> of a header, under default packing \<open>dflt\<close>.\<close>

definition field_offsets :: "nat \<Rightarrow> item list \<Rightarrow> string \<Rightarrow> (string \<times> nat) list option" where
  "field_offsets dflt h n =
    (case find_struct dflt h n of
       None \<Rightarrow> None
     | Some (s, pack) \<Rightarrow>
         map_option (map (\<lambda>(f, off, sz). (f, off))) (place_fields h pack 0 (members s)))"

definition sizeof_struct :: "nat \<Rightarrow> item list \<Rightarrow> string \<Rightarrow> nat option" where
  "sizeof_struct dflt h n =
    (case find_struct dflt h n of
       None \<Rightarrow> None
     | Some (s, pack) \<Rightarrow> struct_size h pack s)"

text \<open>
  A layout without padding, in the words of the specification: the offset of each field is
  the sum of the sizes of the fields before it. \<open>member_sizes\<close> are the sizes of the declared
  members, in order, and \<open>packed_offsets\<close> pairs every declared member with the sum of the
  sizes of the members before it.
\<close>

fun sums_before :: "nat \<Rightarrow> nat list \<Rightarrow> nat list" where
  "sums_before acc [] = []"
| "sums_before acc (s # ss) = acc # sums_before (acc + s) ss"

definition member_sizes :: "item list \<Rightarrow> struct_decl \<Rightarrow> nat list option" where
  "member_sizes h s = those (map (\<lambda>(t, n). sizeof h t) (members s))"

definition packed_offsets :: "item list \<Rightarrow> struct_decl \<Rightarrow> (string \<times> nat) list option" where
  "packed_offsets h s =
    map_option (\<lambda>szs. zip (map snd (members s)) (sums_before 0 szs)) (member_sizes h s)"

text \<open>
  A struct has no padding under a packing when the compiler's placement has one entry for
  each declared member, in order, with the member's name, its own size, and the offset
  \<open>packed_offsets\<close> gives it; and the struct is as large as its members together.
\<close>

definition no_padding :: "item list \<Rightarrow> struct_decl \<times> nat \<Rightarrow> bool" where
  "no_padding h sp =
    (case (place_fields h (snd sp) 0 (members (fst sp)), member_sizes h (fst sp)) of
       (Some pl, Some szs) \<Rightarrow>
         length pl = length (members (fst sp))
         \<and> map (\<lambda>(f, off, sz). sz) pl = szs
         \<and> Some (map (\<lambda>(f, off, sz). (f, off)) pl) = packed_offsets h (fst sp)
         \<and> struct_size h (snd sp) (fst sp) = Some (sum_list szs)
     | (Some pl, None) \<Rightarrow> False
     | (None, szs) \<Rightarrow> False)"

text \<open>The packing values the compiler accepts, as \<^verbatim>\<open>/Zp\<close> default or in a pragma.\<close>

definition pack_values :: "nat list" where
  "pack_values = [1, 2, 4, 8, 16]"

subsection \<open>The import/export macro\<close>

text \<open>
  \<^verbatim>\<open>#ifdef G\<close> / \<^verbatim>\<open>#define M a\<close> / \<^verbatim>\<open>#else\<close> / \<^verbatim>\<open>#define M b\<close> / \<^verbatim>\<open>#endif\<close>, and its
  expansion at a use of a macro name, given the symbols defined on the command line.
\<close>

datatype declspec = Dllexport | Dllimport

record api_macro =
  guard :: string
  macro :: string
  if_defined :: declspec
  otherwise :: declspec

fun expand_api :: "api_macro \<Rightarrow> string list \<Rightarrow> string option \<Rightarrow> declspec option" where
  "expand_api m defined None = None"
| "expand_api m defined (Some n) =
    (if n = macro m
     then Some (if guard m \<in> set defined then if_defined m else otherwise m)
     else None)"

subsection \<open>Names\<close>

fun starts_with :: "string \<Rightarrow> string \<Rightarrow> bool" where
  "starts_with [] s = True"
| "starts_with (p # ps) [] = False"
| "starts_with (p # ps) (c # cs) = (p = c \<and> starts_with ps cs)"

fun mentions :: "string \<Rightarrow> string \<Rightarrow> bool" where
  "mentions p [] = starts_with p []"
| "mentions p (c # cs) = (starts_with p (c # cs) \<or> mentions p cs)"

fun strip_prefix :: "string \<Rightarrow> string \<Rightarrow> string option" where
  "strip_prefix [] s = Some s"
| "strip_prefix (p # ps) [] = None"
| "strip_prefix (p # ps) (c # cs) = (if p = c then strip_prefix ps cs else None)"

definition declares :: "item list \<Rightarrow> string \<Rightarrow> bool" where
  "declares h n = (n \<in> set (map fname (functions_of h)))"

text \<open>
  The parameter names \<open>X\<close> for which a header declares both \<open>pre\<close>\<^verbatim>\<open>GetX\<close> and
  \<open>pre\<close>\<^verbatim>\<open>SetX\<close>.
\<close>

definition get_set_pairs :: "string \<Rightarrow> item list \<Rightarrow> string list" where
  "get_set_pairs pre h =
    filter (\<lambda>x. declares h (pre @ ''Set'' @ x))
      (List.map_filter (strip_prefix (pre @ ''Get'')) (map fname (functions_of h)))"

text \<open>
  A function registers a callback when it takes a function pointer. A function belongs to
  the message-queue surface when its name speaks of messages or its summary of the message
  queue, and to the polling surface when its name speaks of polling or its summary of the
  polling loop.
\<close>

fun is_funptr :: "ctype \<Rightarrow> bool" where
  "is_funptr (T_funptr t ts) = True"
| "is_funptr t = False"

definition takes_callback :: "fn_decl \<Rightarrow> bool" where
  "takes_callback f = list_ex (\<lambda>(t, n). is_funptr t) (params f)"

definition about_queue :: "fn_decl \<Rightarrow> bool" where
  "about_queue f =
    (mentions ''Message'' (fname f) \<or> mentions ''message queue'' (summary f)
     \<or> mentions ''MessageQueue'' (summary f))"

definition about_polling :: "fn_decl \<Rightarrow> bool" where
  "about_polling f =
    (mentions ''Polling'' (fname f) \<or> mentions ''polling loop'' (summary f))"

section \<open>The laser-source header\<close>

text \<open>\<^verbatim>\<open>Thorlabs.MotionControl.KCube.LaserSource.h\<close>, lines 11 to 15.\<close>

definition laser_api_macro :: api_macro where
  \<open>laser_api_macro = \<lparr> guard = ''KLASERSOURCEDLL_EXPORTS'', macro = ''KLASERSOURCE_API'',
    if_defined = Dllexport, otherwise = Dllimport \<rparr>\<close>

text \<open>\<^verbatim>\<open>Thorlabs.MotionControl.KCube.LaserSource.h\<close>, lines 39 to 50.\<close>

definition laser_FT_Status :: enum_decl where
  \<open>laser_FT_Status = \<lparr> ename = ''FT_Status'', underlying = Some T_short,
    enumerators = [(''FT_OK'', Some 0),
      (''FT_InvalidHandle'', Some 1),
      (''FT_DeviceNotFound'', Some 2),
      (''FT_DeviceNotOpened'', Some 3),
      (''FT_IOError'', Some 4),
      (''FT_InsufficientResources'', Some 5),
      (''FT_InvalidParameter'', Some 6),
      (''FT_DeviceNotPresent'', Some 7),
      (''FT_IncorrectDevice'', Some 8)] \<rparr>\<close>

text \<open>\<^verbatim>\<open>Thorlabs.MotionControl.KCube.LaserSource.h\<close>, lines 53 to 60.\<close>

definition laser_MOT_MotorTypes :: enum_decl where
  \<open>laser_MOT_MotorTypes = \<lparr> ename = ''MOT_MotorTypes'', underlying = None,
    enumerators = [(''MOT_NotMotor'', Some 0),
      (''MOT_DCMotor'', Some 1),
      (''MOT_StepperMotor'', Some 2),
      (''MOT_BrushlessMotor'', Some 3),
      (''MOT_CustomMotor'', Some 100)] \<rparr>\<close>

text \<open>\<^verbatim>\<open>Thorlabs.MotionControl.KCube.LaserSource.h\<close>, lines 65 to 98.\<close>

definition laser_TLI_DeviceInfo :: struct_decl where
  \<open>laser_TLI_DeviceInfo = \<lparr> sname = ''TLI_DeviceInfo'',
    members = [(T_DWORD, ''typeID''),
      (T_array T_char 65, ''description''),
      (T_array T_char 9, ''serialNo''),
      (T_DWORD, ''PID''),
      (T_bool, ''isKnownType''),
      (T_named ''MOT_MotorTypes'', ''motorType''),
      (T_bool, ''isPiezoDevice''),
      (T_bool, ''isLaser''),
      (T_bool, ''isCustomType''),
      (T_bool, ''isRack''),
      (T_short, ''maxChannels'')] \<rparr>\<close>

text \<open>\<^verbatim>\<open>Thorlabs.MotionControl.KCube.LaserSource.h\<close>, lines 102 to 125.\<close>

definition laser_TLI_HardwareInformation :: struct_decl where
  \<open>laser_TLI_HardwareInformation = \<lparr> sname = ''TLI_HardwareInformation'',
    members = [(T_DWORD, ''serialNumber''),
      (T_array T_char 8, ''modelNumber''),
      (T_WORD, ''type''),
      (T_DWORD, ''firmwareVersion''),
      (T_array T_char 48, ''notes''),
      (T_array T_BYTE 12, ''deviceDependantData''),
      (T_WORD, ''hardwareVersion''),
      (T_WORD, ''modificationState''),
      (T_short, ''numChannels'')] \<rparr>\<close>

text \<open>\<^verbatim>\<open>Thorlabs.MotionControl.KCube.LaserSource.h\<close>, lines 129 to 134.\<close>

definition laser_LS_InputSourceFlags :: enum_decl where
  \<open>laser_LS_InputSourceFlags = \<lparr> ename = ''LS_InputSourceFlags'', underlying = Some T_unsigned_short,
    enumerators = [(''LS_SoftwareOnly'', Some 0),
      (''LS_ExternalSignal'', Some 1),
      (''LS_Potentiometer'', Some 4)] \<rparr>\<close>

text \<open>\<^verbatim>\<open>Thorlabs.MotionControl.KCube.LaserSource.h\<close>, lines 137 to 143.\<close>

definition laser_KLS_MMIParams :: struct_decl where
  \<open>laser_KLS_MMIParams = \<lparr> sname = ''KLS_MMIParams'',
    members = [(T_int16, ''displayIntensity''),
      (T_array T_int16 3, ''reserved'')] \<rparr>\<close>

text \<open>\<^verbatim>\<open>Thorlabs.MotionControl.KCube.LaserSource.h\<close>, lines 146 to 150.\<close>

definition laser_KLS_OpMode :: enum_decl where
  \<open>laser_KLS_OpMode = \<lparr> ename = ''KLS_OpMode'', underlying = Some T_unsigned_short,
    enumerators = [(''KLS_ConstantPower'', Some 0),
      (''KLS_ConstantCurrent'', Some 1)] \<rparr>\<close>

text \<open>\<^verbatim>\<open>Thorlabs.MotionControl.KCube.LaserSource.h\<close>, lines 153 to 165.\<close>

definition laser_KLS_TriggerMode :: enum_decl where
  \<open>laser_KLS_TriggerMode = \<lparr> ename = ''KLS_TriggerMode'', underlying = Some T_unsigned_short,
    enumerators = [(''KLS_Disabled'', Some 0),
      (''KLS_Input'', Some 1),
      (''KLS_ModulationTrigger'', Some 2),
      (''KLS_SetPower'', Some 3),
      (''KLS_Output'', Some 10),
      (''KLS_LaserOn'', Some 11),
      (''KLS_InterlockEnabled'', Some 12),
      (''KLS_SetPointChange'', Some 13),
      (''KLS_HighStability'', Some 14),
      (''KLS_LowStability'', Some 15)] \<rparr>\<close>

text \<open>\<^verbatim>\<open>Thorlabs.MotionControl.KCube.LaserSource.h\<close>, lines 168 to 172.\<close>

definition laser_KLS_TrigPolarity :: enum_decl where
  \<open>laser_KLS_TrigPolarity = \<lparr> ename = ''KLS_TrigPolarity'', underlying = Some T_unsigned_short,
    enumerators = [(''KLS_TrigPol_High'', Some 1),
      (''KLS_TrigPol_Low'', Some 2)] \<rparr>\<close>

text \<open>\<^verbatim>\<open>Thorlabs.MotionControl.KCube.LaserSource.h\<close>, lines 175 to 217.\<close>

definition laser_KLS_TrigIOParams :: struct_decl where
  \<open>laser_KLS_TrigIOParams = \<lparr> sname = ''KLS_TrigIOParams'',
    members = [(T_named ''KLS_TriggerMode'', ''mode1''),
      (T_named ''KLS_TrigPolarity'', ''polarity1''),
      (T_int16, ''power1''),
      (T_named ''KLS_TriggerMode'', ''mode2''),
      (T_named ''KLS_TrigPolarity'', ''polarity2''),
      (T_int16, ''power2'')] \<rparr>\<close>

text \<open>The prototypes of \<^verbatim>\<open>Thorlabs.MotionControl.KCube.LaserSource.h\<close>, lines 231 to 922, in source order.\<close>

definition laser_prototypes :: "fn_decl list" where
  \<open>laser_prototypes = [
    \<lparr> api = Some ''KLASERSOURCE_API'', ret = T_short, callconv = Some Cdecl, fname = ''TLI_BuildDeviceList'',
      params = [],
      summary = ''Build the DeviceList.'',
      returns = ErrorCodeOrZero \<rparr>,
    \<lparr> api = Some ''KLASERSOURCE_API'', ret = T_short, callconv = Some Cdecl, fname = ''TLI_GetDeviceListSize'',
      params = [],
      summary = ''Gets the device list size.'',
      returns = ReturnsValue ''Number of devices in device list.'' \<rparr>,
    \<lparr> api = Some ''KLASERSOURCE_API'', ret = T_short, callconv = Some Cdecl, fname = ''TLI_GetDeviceList'',
      params = [(T_ptr (T_ptr T_SAFEARRAY), ''stringsReceiver'')],
      summary = ''Get the entire contents of the device list.'',
      returns = ErrorCodeOrZero \<rparr>,
    \<lparr> api = Some ''KLASERSOURCE_API'', ret = T_short, callconv = Some Cdecl, fname = ''TLI_GetDeviceListByType'',
      params = [(T_ptr (T_ptr T_SAFEARRAY), ''stringsReceiver''), (T_int, ''typeID'')],
      summary = ''Get the contents of the device list which match the supplied typeID.'',
      returns = ErrorCodeOrZero \<rparr>,
    \<lparr> api = Some ''KLASERSOURCE_API'', ret = T_short, callconv = Some Cdecl, fname = ''TLI_GetDeviceListByTypes'',
      params = [(T_ptr (T_ptr T_SAFEARRAY), ''stringsReceiver''), (T_ptr T_int, ''typeIDs''), (T_int, ''length'')],
      summary = ''Get the contents of the device list which match the supplied typeIDs.'',
      returns = ErrorCodeOrZero \<rparr>,
    \<lparr> api = Some ''KLASERSOURCE_API'', ret = T_short, callconv = Some Cdecl, fname = ''TLI_GetDeviceListExt'',
      params = [(T_ptr T_char, ''receiveBuffer''), (T_DWORD, ''sizeOfBuffer'')],
      summary = ''Get the entire contents of the device list.'',
      returns = ErrorCodeOrZero \<rparr>,
    \<lparr> api = Some ''KLASERSOURCE_API'', ret = T_short, callconv = Some Cdecl, fname = ''TLI_GetDeviceListByTypeExt'',
      params = [(T_ptr T_char, ''receiveBuffer''), (T_DWORD, ''sizeOfBuffer''), (T_int, ''typeID'')],
      summary = ''Get the contents of the device list which match the supplied typeID.'',
      returns = ErrorCodeOrZero \<rparr>,
    \<lparr> api = Some ''KLASERSOURCE_API'', ret = T_short, callconv = Some Cdecl, fname = ''TLI_GetDeviceListByTypesExt'',
      params = [(T_ptr T_char, ''receiveBuffer''), (T_DWORD, ''sizeOfBuffer''), (T_ptr T_int, ''typeIDs''), (T_int, ''length'')],
      summary = ''Get the contents of the device list which match the supplied typeIDs.'',
      returns = ErrorCodeOrZero \<rparr>,
    \<lparr> api = Some ''KLASERSOURCE_API'', ret = T_short, callconv = Some Cdecl, fname = ''TLI_GetDeviceInfo'',
      params = [(T_ptr (T_const T_char), ''serialNo''), (T_ptr (T_named ''TLI_DeviceInfo''), ''info'')],
      summary = ''Get the device information from the USB port.'',
      returns = OneIfSuccessfulZeroIfNot \<rparr>,
    \<lparr> api = Some ''KLASERSOURCE_API'', ret = T_short, callconv = Some Cdecl, fname = ''LS_Open'',
      params = [(T_ptr (T_const T_char), ''serialNo'')],
      summary = ''Open the device for communications.'',
      returns = ErrorCodeOrZero \<rparr>,
    \<lparr> api = Some ''KLASERSOURCE_API'', ret = T_void, callconv = Some Cdecl, fname = ''LS_Close'',
      params = [(T_ptr (T_const T_char), ''serialNo'')],
      summary = ''Disconnect and close the device.'',
      returns = NoReturns \<rparr>,
    \<lparr> api = Some ''KLASERSOURCE_API'', ret = T_bool, callconv = Some Cdecl, fname = ''LS_CheckConnection'',
      params = [(T_ptr (T_const T_char), ''serialNo'')],
      summary = ''Check connection.'',
      returns = ReturnsValue ''true if the USB is listed by the ftdi controller'' \<rparr>,
    \<lparr> api = Some ''KLASERSOURCE_API'', ret = T_void, callconv = Some Cdecl, fname = ''LS_Identify'',
      params = [(T_ptr (T_const T_char), ''serialNo'')],
      summary = ''Sends a command to the device to make it identify iteself.'',
      returns = NoReturns \<rparr>,
    \<lparr> api = Some ''KLASERSOURCE_API'', ret = T_short, callconv = Some Cdecl, fname = ''LS_GetHardwareInfo'',
      params = [(T_ptr (T_const T_char), ''serialNo''), (T_ptr T_char, ''modelNo''), (T_DWORD, ''sizeOfModelNo''), (T_ptr T_WORD, ''type''), (T_ptr T_WORD, ''numChannels''), (T_ptr T_char, ''notes''), (T_DWORD, ''sizeOfNotes''), (T_ptr T_DWORD, ''firmwareVersion''), (T_ptr T_WORD, ''hardwareVersion''), (T_ptr T_WORD, ''modificationState'')],
      summary = ''Gets the hardware information from the device.'',
      returns = ErrorCodeOrZero \<rparr>,
    \<lparr> api = Some ''KLASERSOURCE_API'', ret = T_short, callconv = Some Cdecl, fname = ''LS_GetHardwareInfoBlock'',
      params = [(T_ptr (T_const T_char), ''serialNo''), (T_ptr (T_named ''TLI_HardwareInformation''), ''hardwareInfo'')],
      summary = ''Gets the hardware information in a block.'',
      returns = ErrorCodeOrZero \<rparr>,
    \<lparr> api = Some ''KLASERSOURCE_API'', ret = T_DWORD, callconv = Some Cdecl, fname = ''LS_GetFirmwareVersion'',
      params = [(T_ptr (T_const T_char), ''serialNo'')],
      summary = ''Gets version number of the device firmware.'',
      returns = ReturnsValue ''The device firmware version number made up of 4 byte parts.'' \<rparr>,
    \<lparr> api = Some ''KLASERSOURCE_API'', ret = T_DWORD, callconv = Some Cdecl, fname = ''LS_GetSoftwareVersion'',
      params = [(T_ptr (T_const T_char), ''serialNo'')],
      summary = ''Gets version number of the device software.'',
      returns = ReturnsValue ''The device software version number made up of 4 byte parts.'' \<rparr>,
    \<lparr> api = Some ''KLASERSOURCE_API'', ret = T_bool, callconv = Some Cdecl, fname = ''LS_LoadSettings'',
      params = [(T_ptr (T_const T_char), ''serialNo'')],
      summary = ''Update device with stored settings.'',
      returns = TrueIfSuccessfulFalseIfNot \<rparr>,
    \<lparr> api = Some ''KLASERSOURCE_API'', ret = T_bool, callconv = Some Cdecl, fname = ''LS_PersistSettings'',
      params = [(T_ptr (T_const T_char), ''serialNo'')],
      summary = ''persist the devices current settings.'',
      returns = TrueIfSuccessfulFalseIfNot \<rparr>,
    \<lparr> api = Some ''KLASERSOURCE_API'', ret = T_short, callconv = Some Cdecl, fname = ''LS_Disable'',
      params = [(T_ptr (T_const T_char), ''serialNo'')],
      summary = ''Disable laser.'',
      returns = ErrorCodeOrZero \<rparr>,
    \<lparr> api = Some ''KLASERSOURCE_API'', ret = T_short, callconv = Some Cdecl, fname = ''LS_Enable'',
      params = [(T_ptr (T_const T_char), ''serialNo'')],
      summary = ''Enable laser for computer control.'',
      returns = ErrorCodeOrZero \<rparr>,
    \<lparr> api = Some ''KLASERSOURCE_API'', ret = T_void, callconv = Some Cdecl, fname = ''LS_ClearMessageQueue'',
      params = [(T_ptr (T_const T_char), ''serialNo'')],
      summary = ''Clears the device message queue.'',
      returns = NoReturns \<rparr>,
    \<lparr> api = Some ''KLASERSOURCE_API'', ret = T_void, callconv = Some Cdecl, fname = ''LS_RegisterMessageCallback'',
      params = [(T_ptr (T_const T_char), ''serialNo''), (T_funptr T_void [], ''functionPointer'')],
      summary = ''Registers a callback on the message queue.'',
      returns = NoReturns \<rparr>,
    \<lparr> api = Some ''KLASERSOURCE_API'', ret = T_int, callconv = Some Cdecl, fname = ''LS_MessageQueueSize'',
      params = [(T_ptr (T_const T_char), ''serialNo'')],
      summary = ''Gets the MessageQueue size.'',
      returns = ReturnsValue ''number of messages in the queue.'' \<rparr>,
    \<lparr> api = Some ''KLASERSOURCE_API'', ret = T_bool, callconv = Some Cdecl, fname = ''LS_GetNextMessage'',
      params = [(T_ptr (T_const T_char), ''serialNo''), (T_ptr T_WORD, ''messageType''), (T_ptr T_WORD, ''messageID''), (T_ptr T_DWORD, ''messageData'')],
      summary = ''Get the next MessageQueue item.'',
      returns = TrueIfSuccessfulFalseIfNot \<rparr>,
    \<lparr> api = Some ''KLASERSOURCE_API'', ret = T_bool, callconv = Some Cdecl, fname = ''LS_WaitForMessage'',
      params = [(T_ptr (T_const T_char), ''serialNo''), (T_ptr T_WORD, ''messageType''), (T_ptr T_WORD, ''messageID''), (T_ptr T_DWORD, ''messageData'')],
      summary = ''Wait for next MessageQueue item.'',
      returns = TrueIfSuccessfulFalseIfNot \<rparr>,
    \<lparr> api = Some ''KLASERSOURCE_API'', ret = T_short, callconv = Some Cdecl, fname = ''LS_DisableOutput'',
      params = [(T_ptr (T_const T_char), ''serialNo'')],
      summary = ''Switch laser off.'',
      returns = ErrorCodeOrZero \<rparr>,
    \<lparr> api = Some ''KLASERSOURCE_API'', ret = T_short, callconv = Some Cdecl, fname = ''LS_EnableOutput'',
      params = [(T_ptr (T_const T_char), ''serialNo'')],
      summary = ''Switch laser on.'',
      returns = ErrorCodeOrZero \<rparr>,
    \<lparr> api = Some ''KLASERSOURCE_API'', ret = T_short, callconv = Some Cdecl, fname = ''LS_RequestControlSource'',
      params = [(T_ptr (T_const T_char), ''serialNo'')],
      summary = ''Gets the control input source.'',
      returns = ErrorCodeOrZero \<rparr>,
    \<lparr> api = Some ''KLASERSOURCE_API'', ret = T_named ''LS_InputSourceFlags'', callconv = Some Cdecl, fname = ''LS_GetControlSource'',
      params = [(T_ptr (T_const T_char), ''serialNo'')],
      summary = ''Gets the control input source.'',
      returns = ReturnsValue ''The control input source.'' \<rparr>,
    \<lparr> api = Some ''KLASERSOURCE_API'', ret = T_short, callconv = Some Cdecl, fname = ''LS_SetControlSource'',
      params = [(T_ptr (T_const T_char), ''serialNo''), (T_named ''LS_InputSourceFlags'', ''source'')],
      summary = ''Sets the control input source.'',
      returns = ErrorCodeOrZero \<rparr>,
    \<lparr> api = Some ''KLASERSOURCE_API'', ret = T_short, callconv = Some Cdecl, fname = ''LS_RequestMMIParams'',
      params = [(T_ptr (T_const T_char), ''serialNo'')],
      summary = ''Requests the MMI parameters.'',
      returns = ErrorCodeOrZero \<rparr>,
    \<lparr> api = Some ''KLASERSOURCE_API'', ret = T_short, callconv = Some Cdecl, fname = ''LS_GetMMIParams'',
      params = [(T_ptr (T_const T_char), ''serialNo'')],
      summary = ''Gets the MMI parameters.'',
      returns = ReturnsValue ''The Display Intensity.'' \<rparr>,
    \<lparr> api = Some ''KLASERSOURCE_API'', ret = T_short, callconv = Some Cdecl, fname = ''LS_SetMMIParams'',
      params = [(T_ptr (T_const T_char), ''serialNo''), (T_short, ''dispIntensity'')],
      summary = ''Sets the MMI parameters.'',
      returns = ErrorCodeOrZero \<rparr>,
    \<lparr> api = Some ''KLASERSOURCE_API'', ret = T_short, callconv = Some Cdecl, fname = ''LS_GetMMIParamsBlock'',
      params = [(T_ptr (T_const T_char), ''serialNo''), (T_ptr (T_named ''KLS_MMIParams''), ''params'')],
      summary = ''Gets the MMI parameters.'',
      returns = ErrorCodeOrZero \<rparr>,
    \<lparr> api = Some ''KLASERSOURCE_API'', ret = T_short, callconv = Some Cdecl, fname = ''LS_SetMMIParamsBlock'',
      params = [(T_ptr (T_const T_char), ''serialNo''), (T_ptr (T_named ''KLS_MMIParams''), ''params'')],
      summary = ''Sets the MMI parameters.'',
      returns = ErrorCodeOrZero \<rparr>,
    \<lparr> api = Some ''KLASERSOURCE_API'', ret = T_short, callconv = Some Cdecl, fname = ''LS_RequestOPMode'',
      params = [(T_ptr (T_const T_char), ''serialNo'')],
      summary = ''Requests the Operation Mode parameters.'',
      returns = ErrorCodeOrZero \<rparr>,
    \<lparr> api = Some ''KLASERSOURCE_API'', ret = T_short, callconv = Some Cdecl, fname = ''LS_GetOPMode'',
      params = [(T_ptr (T_const T_char), ''serialNo''), (T_ptr (T_named ''KLS_OpMode''), ''mode'')],
      summary = ''Gets the Operation Mode parameters.'',
      returns = ErrorCodeOrZero \<rparr>,
    \<lparr> api = Some ''KLASERSOURCE_API'', ret = T_short, callconv = Some Cdecl, fname = ''LS_SetOPMode'',
      params = [(T_ptr (T_const T_char), ''serialNo''), (T_named ''KLS_OpMode'', ''mode'')],
      summary = ''Sets the Operation Mode parameters.'',
      returns = ErrorCodeOrZero \<rparr>,
    \<lparr> api = Some ''KLASERSOURCE_API'', ret = T_short, callconv = Some Cdecl, fname = ''LS_RequestTrigIOParams'',
      params = [(T_ptr (T_const T_char), ''serialNo'')],
      summary = ''Requests the Trigger IO parameters.'',
      returns = ErrorCodeOrZero \<rparr>,
    \<lparr> api = Some ''KLASERSOURCE_API'', ret = T_short, callconv = Some Cdecl, fname = ''LS_GetTrigIOParams'',
      params = [(T_ptr (T_const T_char), ''serialNo''), (T_ptr (T_named ''KLS_TriggerMode''), ''mode1''), (T_ptr (T_named ''KLS_TrigPolarity''), ''polarity1''), (T_ptr T_short, ''power1''), (T_ptr (T_named ''KLS_TriggerMode''), ''mode2''), (T_ptr (T_named ''KLS_TrigPolarity''), ''polarity2''), (T_ptr T_short, ''power2'')],
      summary = ''Gets the Trigger IO parameters.'',
      returns = ErrorCodeOrZero \<rparr>,
    \<lparr> api = Some ''KLASERSOURCE_API'', ret = T_short, callconv = Some Cdecl, fname = ''LS_SetTrigIOParams'',
      params = [(T_ptr (T_const T_char), ''serialNo''), (T_named ''KLS_TriggerMode'', ''mode1''), (T_named ''KLS_TrigPolarity'', ''polarity1''), (T_short, ''power1''), (T_named ''KLS_TriggerMode'', ''mode2''), (T_named ''KLS_TrigPolarity'', ''polarity2''), (T_short, ''power2'')],
      summary = ''Sets the Trigger IO parameters.'',
      returns = ErrorCodeOrZero \<rparr>,
    \<lparr> api = Some ''KLASERSOURCE_API'', ret = T_short, callconv = Some Cdecl, fname = ''LS_GetTrigIOParamsBlock'',
      params = [(T_ptr (T_const T_char), ''serialNo''), (T_ptr (T_named ''KLS_TrigIOParams''), ''params'')],
      summary = ''Gets the Trigger IO parameters.'',
      returns = ErrorCodeOrZero \<rparr>,
    \<lparr> api = Some ''KLASERSOURCE_API'', ret = T_short, callconv = Some Cdecl, fname = ''LS_SetTrigIOParamsBlock'',
      params = [(T_ptr (T_const T_char), ''serialNo''), (T_ptr (T_named ''KLS_TrigIOParams''), ''params'')],
      summary = ''Ls set trig i/o parameters block.'',
      returns = ErrorCodeOrZero \<rparr>,
    \<lparr> api = Some ''KLASERSOURCE_API'', ret = T_BYTE, callconv = Some Cdecl, fname = ''LS_GetInterlockState'',
      params = [(T_ptr (T_const T_char), ''serialNo'')],
      summary = ''Gets the Interlock State.'',
      returns = ReturnsValue ''The interlock state.'' \<rparr>,
    \<lparr> api = Some ''KLASERSOURCE_API'', ret = T_short, callconv = Some Cdecl, fname = ''LS_RequestLimits'',
      params = [(T_ptr (T_const T_char), ''serialNo'')],
      summary = ''Requests the limits MaxPower and MaxCurrent.'',
      returns = ErrorCodeOrZero \<rparr>,
    \<lparr> api = Some ''KLASERSOURCE_API'', ret = T_short, callconv = Some Cdecl, fname = ''LS_RequestWavelength'',
      params = [(T_ptr (T_const T_char), ''serialNo'')],
      summary = ''Requests the device Wavelength.'',
      returns = ErrorCodeOrZero \<rparr>,
    \<lparr> api = Some ''KLASERSOURCE_API'', ret = T_WORD, callconv = Some Cdecl, fname = ''LS_GetWavelength'',
      params = [(T_ptr (T_const T_char), ''serialNo'')],
      summary = ''Gets the operating wavelength.'',
      returns = ReturnsValue ''The operating Wavelength in nm.'' \<rparr>,
    \<lparr> api = Some ''KLASERSOURCE_API'', ret = T_short, callconv = Some Cdecl, fname = ''LS_GetLimits'',
      params = [(T_ptr (T_const T_char), ''serialNo''), (T_ref T_WORD, ''maxPower''), (T_ref T_WORD, ''maxCurrent'')],
      summary = ''Gets the max power and current limits for the device.'',
      returns = ErrorCodeOrZero \<rparr>,
    \<lparr> api = Some ''KLASERSOURCE_API'', ret = T_short, callconv = Some Cdecl, fname = ''LS_RequestSetPower'',
      params = [(T_ptr (T_const T_char), ''serialNo'')],
      summary = ''Sets the output power.'',
      returns = ErrorCodeOrZero \<rparr>,
    \<lparr> api = Some ''KLASERSOURCE_API'', ret = T_WORD, callconv = Some Cdecl, fname = ''LS_GetPowerSet'',
      params = [(T_ptr (T_const T_char), ''serialNo'')],
      summary = ''Gets the output power currently set.'',
      returns = ReturnsValue ''The output power, range 0 to 32767 representing 0 to 100 % of the maximum power.'' \<rparr>,
    \<lparr> api = Some ''KLASERSOURCE_API'', ret = T_short, callconv = Some Cdecl, fname = ''LS_SetPower'',
      params = [(T_ptr (T_const T_char), ''serialNo''), (T_WORD, ''power'')],
      summary = ''Sets the output power.'',
      returns = ErrorCodeOrZero \<rparr>,
    \<lparr> api = Some ''KLASERSOURCE_API'', ret = T_short, callconv = Some Cdecl, fname = ''LS_RequestStatus'',
      params = [(T_ptr (T_const T_char), ''serialNo'')],
      summary = ''Requests the state quantities (actual power, current and status).'',
      returns = ErrorCodeOrZero \<rparr>,
    \<lparr> api = Some ''KLASERSOURCE_API'', ret = T_short, callconv = Some Cdecl, fname = ''LS_RequestReadings'',
      params = [(T_ptr (T_const T_char), ''serialNo'')],
      summary = ''Request power and current readings.'',
      returns = ErrorCodeOrZero \<rparr>,
    \<lparr> api = Some ''KLASERSOURCE_API'', ret = T_short, callconv = Some Cdecl, fname = ''LS_RequestStatusBits'',
      params = [(T_ptr (T_const T_char), ''serialNo'')],
      summary = ''Request the status bits which identify the current device state.'',
      returns = ErrorCodeOrZero \<rparr>,
    \<lparr> api = Some ''KLASERSOURCE_API'', ret = T_WORD, callconv = Some Cdecl, fname = ''LS_GetPowerReading'',
      params = [(T_ptr (T_const T_char), ''serialNo'')],
      summary = ''Gets current power reading.'',
      returns = ReturnsValue ''The current power, range 0 to 32767 representing 0 to 100 % of the maximum power.'' \<rparr>,
    \<lparr> api = Some ''KLASERSOURCE_API'', ret = T_WORD, callconv = Some Cdecl, fname = ''LS_GetCurrentReading'',
      params = [(T_ptr (T_const T_char), ''serialNo'')],
      summary = ''Gets current Current reading.'',
      returns = ReturnsValue ''The current Current, range 0 to 32767 representing 0 to 100 % of the maximum current.'' \<rparr>,
    \<lparr> api = Some ''KLASERSOURCE_API'', ret = T_DWORD, callconv = Some Cdecl, fname = ''LS_GetStatusBits'',
      params = [(T_ptr (T_const T_char), ''serialNo'')],
      summary = ''Get the current status bits.'',
      returns = ReturnsValue ''The status bits from the device'' \<rparr>,
    \<lparr> api = Some ''KLASERSOURCE_API'', ret = T_bool, callconv = Some Cdecl, fname = ''LS_StartPolling'',
      params = [(T_ptr (T_const T_char), ''serialNo''), (T_int, ''milliseconds'')],
      summary = ''Starts the internal polling loop which continuously requests position and status.'',
      returns = TrueIfSuccessfulFalseIfNot \<rparr>,
    \<lparr> api = Some ''KLASERSOURCE_API'', ret = T_long, callconv = Some Cdecl, fname = ''LS_PollingDuration'',
      params = [(T_ptr (T_const T_char), ''serialNo'')],
      summary = ''Gets the polling loop duration.'',
      returns = ReturnsValue ''The time between polls in milliseconds or 0 if polling is not active.'' \<rparr>,
    \<lparr> api = Some ''KLASERSOURCE_API'', ret = T_void, callconv = Some Cdecl, fname = ''LS_StopPolling'',
      params = [(T_ptr (T_const T_char), ''serialNo'')],
      summary = ''Stops the internal polling loop.'',
      returns = NoReturns \<rparr>,
    \<lparr> api = Some ''KLASERSOURCE_API'', ret = T_bool, callconv = Some Cdecl, fname = ''LS_TimeSinceLastMsgReceived'',
      params = [(T_ptr (T_const T_char), ''serialNo''), (T_ref T_int64, ''lastUpdateTimeMS'')],
      summary = ''Gets the time in milliseconds since tha last message was received from the device.'',
      returns = ReturnsValue ''True if monitoring is enabled otherwize False.'' \<rparr>,
    \<lparr> api = Some ''KLASERSOURCE_API'', ret = T_void, callconv = Some Cdecl, fname = ''LS_EnableLastMsgTimer'',
      params = [(T_ptr (T_const T_char), ''serialNo''), (T_bool, ''enable''), (T_int32, ''lastMsgTimeout'')],
      summary = ''Enables the last message monitoring timer.'',
      returns = NoReturns \<rparr>,
    \<lparr> api = Some ''KLASERSOURCE_API'', ret = T_bool, callconv = Some Cdecl, fname = ''LS_HasLastMsgTimerOverrun'',
      params = [(T_ptr (T_const T_char), ''serialNo'')],
      summary = ''Queries if the time since the last message has exceeded the lastMsgTimeout set by <see cref="LS_EnableLastMsgTimer(char const * serialNo, bool enable, __int32 lastMsgTimeout )"/>.'',
      returns = ReturnsValue ''True if last message timer has elapsed, False if monitoring is not enabled or if time of last message received is less than lastMsgTimeout.'' \<rparr>,
    \<lparr> api = Some ''KLASERSOURCE_API'', ret = T_short, callconv = Some Cdecl, fname = ''LS_RequestSettings'',
      params = [(T_ptr (T_const T_char), ''serialNo'')],
      summary = ''Requests that all settings are download from device.'',
      returns = ErrorCodeOrZero \<rparr>
  ]\<close>

text \<open>The \<^verbatim>\<open>extern "C"\<close> block of \<^verbatim>\<open>Thorlabs.MotionControl.KCube.LaserSource.h\<close>, in source order.\<close>

definition laser_header :: "item list" where
  \<open>laser_header =
    [EnumDecl laser_FT_Status,
     EnumDecl laser_MOT_MotorTypes,
     PragmaPack (Some 1),
     StructDecl laser_TLI_DeviceInfo,
     StructDecl laser_TLI_HardwareInformation,
     PragmaPack None,
     EnumDecl laser_LS_InputSourceFlags,
     StructDecl laser_KLS_MMIParams,
     EnumDecl laser_KLS_OpMode,
     EnumDecl laser_KLS_TriggerMode,
     EnumDecl laser_KLS_TrigPolarity,
     StructDecl laser_KLS_TrigIOParams]
    @ map Prototype laser_prototypes\<close>

section \<open>The solenoid header\<close>

text \<open>\<^verbatim>\<open>Thorlabs.MotionControl.KCube.Solenoid.h\<close>, lines 8 to 12.\<close>

definition solenoid_api_macro :: api_macro where
  \<open>solenoid_api_macro = \<lparr> guard = ''KCUBESOLENOIDDLL_EXPORTS'', macro = ''KCUBESOLENOID_API'',
    if_defined = Dllexport, otherwise = Dllimport \<rparr>\<close>

text \<open>\<^verbatim>\<open>Thorlabs.MotionControl.KCube.Solenoid.h\<close>, lines 38 to 49.\<close>

definition solenoid_FT_Status :: enum_decl where
  \<open>solenoid_FT_Status = \<lparr> ename = ''FT_Status'', underlying = Some T_short,
    enumerators = [(''FT_OK'', Some 0),
      (''FT_InvalidHandle'', Some 1),
      (''FT_DeviceNotFound'', Some 2),
      (''FT_DeviceNotOpened'', Some 3),
      (''FT_IOError'', Some 4),
      (''FT_InsufficientResources'', Some 5),
      (''FT_InvalidParameter'', Some 6),
      (''FT_DeviceNotPresent'', Some 7),
      (''FT_IncorrectDevice'', Some 8)] \<rparr>\<close>

text \<open>\<^verbatim>\<open>Thorlabs.MotionControl.KCube.Solenoid.h\<close>, lines 52 to 59.\<close>

definition solenoid_MOT_MotorTypes :: enum_decl where
  \<open>solenoid_MOT_MotorTypes = \<lparr> ename = ''MOT_MotorTypes'', underlying = None,
    enumerators = [(''MOT_NotMotor'', Some 0),
      (''MOT_DCMotor'', Some 1),
      (''MOT_StepperMotor'', Some 2),
      (''MOT_BrushlessMotor'', Some 3),
      (''MOT_CustomMotor'', Some 100)] \<rparr>\<close>

text \<open>\<^verbatim>\<open>Thorlabs.MotionControl.KCube.Solenoid.h\<close>, lines 64 to 97.\<close>

definition solenoid_TLI_DeviceInfo :: struct_decl where
  \<open>solenoid_TLI_DeviceInfo = \<lparr> sname = ''TLI_DeviceInfo'',
    members = [(T_DWORD, ''typeID''),
      (T_array T_char 65, ''description''),
      (T_array T_char 9, ''serialNo''),
      (T_DWORD, ''PID''),
      (T_bool, ''isKnownType''),
      (T_named ''MOT_MotorTypes'', ''motorType''),
      (T_bool, ''isPiezoDevice''),
      (T_bool, ''isLaser''),
      (T_bool, ''isCustomType''),
      (T_bool, ''isRack''),
      (T_short, ''maxChannels'')] \<rparr>\<close>

text \<open>\<^verbatim>\<open>Thorlabs.MotionControl.KCube.Solenoid.h\<close>, lines 101 to 124.\<close>

definition solenoid_TLI_HardwareInformation :: struct_decl where
  \<open>solenoid_TLI_HardwareInformation = \<lparr> sname = ''TLI_HardwareInformation'',
    members = [(T_DWORD, ''serialNumber''),
      (T_array T_char 8, ''modelNumber''),
      (T_WORD, ''type''),
      (T_DWORD, ''firmwareVersion''),
      (T_array T_char 48, ''notes''),
      (T_array T_BYTE 12, ''deviceDependantData''),
      (T_WORD, ''hardwareVersion''),
      (T_WORD, ''modificationState''),
      (T_short, ''numChannels'')] \<rparr>\<close>

text \<open>\<^verbatim>\<open>Thorlabs.MotionControl.KCube.Solenoid.h\<close>, lines 128 to 139.\<close>

definition solenoid_SC_CycleParameters :: struct_decl where
  \<open>solenoid_SC_CycleParameters = \<lparr> sname = ''SC_CycleParameters'',
    members = [(T_unsigned_int, ''openTime''),
      (T_unsigned_int, ''closedTime''),
      (T_unsigned_int, ''numCycles'')] \<rparr>\<close>

text \<open>\<^verbatim>\<open>Thorlabs.MotionControl.KCube.Solenoid.h\<close>, lines 142 to 152.\<close>

definition solenoid_SC_OperatingModes :: enum_decl where
  \<open>solenoid_SC_OperatingModes = \<lparr> ename = ''SC_OperatingModes'', underlying = Some T_byte,
    enumerators = [(''SC_Manual'', Some 1),
      (''SC_Single'', Some 2),
      (''SC_Auto'', Some 3),
      (''SC_Triggered'', Some 4)] \<rparr>\<close>

text \<open>\<^verbatim>\<open>Thorlabs.MotionControl.KCube.Solenoid.h\<close>, lines 155 to 172.\<close>

definition solenoid_SC_OperatingStates :: enum_decl where
  \<open>solenoid_SC_OperatingStates = \<lparr> ename = ''SC_OperatingStates'', underlying = Some T_byte,
    enumerators = [(''SC_Active'', Some 1),
      (''SC_Inactive'', Some 2)] \<rparr>\<close>

text \<open>\<^verbatim>\<open>Thorlabs.MotionControl.KCube.Solenoid.h\<close>, lines 175 to 179.\<close>

definition solenoid_SC_SolenoidStates :: enum_decl where
  \<open>solenoid_SC_SolenoidStates = \<lparr> ename = ''SC_SolenoidStates'', underlying = Some T_byte,
    enumerators = [(''SC_SolenoidOpen'', Some 1),
      (''SC_SolenoidClosed'', Some 2)] \<rparr>\<close>

text \<open>\<^verbatim>\<open>Thorlabs.MotionControl.KCube.Solenoid.h\<close>, lines 182 to 187.\<close>

definition solenoid_KSC_TriggerPortMode :: enum_decl where
  \<open>solenoid_KSC_TriggerPortMode = \<lparr> ename = ''KSC_TriggerPortMode'', underlying = Some T_int16,
    enumerators = [(''KSC_TrigDisabled'', Some 0),
      (''KSC_TrigIn_GPI'', Some 1),
      (''KSC_TrigOut_GPO'', Some 10)] \<rparr>\<close>

text \<open>\<^verbatim>\<open>Thorlabs.MotionControl.KCube.Solenoid.h\<close>, lines 190 to 194.\<close>

definition solenoid_KSC_TriggerPortPolarity :: enum_decl where
  \<open>solenoid_KSC_TriggerPortPolarity = \<lparr> ename = ''KSC_TriggerPortPolarity'', underlying = Some T_int16,
    enumerators = [(''KSC_TrigPolarityHigh'', Some 1),
      (''KSC_TrigPolarityLow'', Some 2)] \<rparr>\<close>

text \<open>\<^verbatim>\<open>Thorlabs.MotionControl.KCube.Solenoid.h\<close>, lines 198 to 210.\<close>

definition solenoid_KSC_MMIParams :: struct_decl where
  \<open>solenoid_KSC_MMIParams = \<lparr> sname = ''KSC_MMIParams'',
    members = [(T_array T_int16 10, ''unused''),
      (T_int16, ''DisplayIntensity''),
      (T_int16, ''DisplayTimeout''),
      (T_int16, ''DisplayDimIntensity''),
      (T_array T_int16 4, ''reserved'')] \<rparr>\<close>

text \<open>\<^verbatim>\<open>Thorlabs.MotionControl.KCube.Solenoid.h\<close>, lines 213 to 251.\<close>

definition solenoid_KSC_TriggerConfig :: struct_decl where
  \<open>solenoid_KSC_TriggerConfig = \<lparr> sname = ''KSC_TriggerConfig'',
    members = [(T_named ''KSC_TriggerPortMode'', ''Trigger1Mode''),
      (T_named ''KSC_TriggerPortPolarity'', ''Trigger1Polarity''),
      (T_named ''KSC_TriggerPortMode'', ''Trigger2Mode''),
      (T_named ''KSC_TriggerPortPolarity'', ''Trigger2Polarity''),
      (T_array T_int16 6, ''reserved'')] \<rparr>\<close>

text \<open>The prototypes of \<^verbatim>\<open>Thorlabs.MotionControl.KCube.Solenoid.h\<close>, lines 267 to 939, in source order.\<close>

definition solenoid_prototypes :: "fn_decl list" where
  \<open>solenoid_prototypes = [
    \<lparr> api = Some ''KCUBESOLENOID_API'', ret = T_short, callconv = Some Cdecl, fname = ''TLI_BuildDeviceList'',
      params = [],
      summary = ''Build the DeviceList.'',
      returns = ErrorCodeOrZero \<rparr>,
    \<lparr> api = Some ''KCUBESOLENOID_API'', ret = T_short, callconv = Some Cdecl, fname = ''TLI_GetDeviceListSize'',
      params = [],
      summary = ''Gets the device list size.'',
      returns = ReturnsValue ''Number of devices in device list.'' \<rparr>,
    \<lparr> api = Some ''KCUBESOLENOID_API'', ret = T_short, callconv = Some Cdecl, fname = ''TLI_GetDeviceList'',
      params = [(T_ptr (T_ptr T_SAFEARRAY), ''stringsReceiver'')],
      summary = ''Get the entire contents of the device list.'',
      returns = ErrorCodeOrZero \<rparr>,
    \<lparr> api = Some ''KCUBESOLENOID_API'', ret = T_short, callconv = Some Cdecl, fname = ''TLI_GetDeviceListByType'',
      params = [(T_ptr (T_ptr T_SAFEARRAY), ''stringsReceiver''), (T_int, ''typeID'')],
      summary = ''Get the contents of the device list which match the supplied typeID.'',
      returns = ErrorCodeOrZero \<rparr>,
    \<lparr> api = Some ''KCUBESOLENOID_API'', ret = T_short, callconv = Some Cdecl, fname = ''TLI_GetDeviceListByTypes'',
      params = [(T_ptr (T_ptr T_SAFEARRAY), ''stringsReceiver''), (T_ptr T_int, ''typeIDs''), (T_int, ''length'')],
      summary = ''Get the contents of the device list which match the supplied typeIDs.'',
      returns = ErrorCodeOrZero \<rparr>,
    \<lparr> api = Some ''KCUBESOLENOID_API'', ret = T_short, callconv = Some Cdecl, fname = ''TLI_GetDeviceListExt'',
      params = [(T_ptr T_char, ''receiveBuffer''), (T_DWORD, ''sizeOfBuffer'')],
      summary = ''Get the entire contents of the device list.'',
      returns = ErrorCodeOrZero \<rparr>,
    \<lparr> api = Some ''KCUBESOLENOID_API'', ret = T_short, callconv = Some Cdecl, fname = ''TLI_GetDeviceListByTypeExt'',
      params = [(T_ptr T_char, ''receiveBuffer''), (T_DWORD, ''sizeOfBuffer''), (T_int, ''typeID'')],
      summary = ''Get the contents of the device list which match the supplied typeID.'',
      returns = ErrorCodeOrZero \<rparr>,
    \<lparr> api = Some ''KCUBESOLENOID_API'', ret = T_short, callconv = Some Cdecl, fname = ''TLI_GetDeviceListByTypesExt'',
      params = [(T_ptr T_char, ''receiveBuffer''), (T_DWORD, ''sizeOfBuffer''), (T_ptr T_int, ''typeIDs''), (T_int, ''length'')],
      summary = ''Get the contents of the device list which match the supplied typeIDs.'',
      returns = ErrorCodeOrZero \<rparr>,
    \<lparr> api = Some ''KCUBESOLENOID_API'', ret = T_short, callconv = Some Cdecl, fname = ''TLI_GetDeviceInfo'',
      params = [(T_ptr (T_const T_char), ''serialNo''), (T_ptr (T_named ''TLI_DeviceInfo''), ''info'')],
      summary = ''Get the device information from the USB port.'',
      returns = OneIfSuccessfulZeroIfNot \<rparr>,
    \<lparr> api = Some ''KCUBESOLENOID_API'', ret = T_short, callconv = Some Cdecl, fname = ''SC_Open'',
      params = [(T_ptr (T_const T_char), ''serialNo'')],
      summary = ''Open the device for communications.'',
      returns = ErrorCodeOrZero \<rparr>,
    \<lparr> api = Some ''KCUBESOLENOID_API'', ret = T_void, callconv = Some Cdecl, fname = ''SC_Close'',
      params = [(T_ptr (T_const T_char), ''serialNo'')],
      summary = ''Disconnect and close the device.'',
      returns = NoReturns \<rparr>,
    \<lparr> api = Some ''KCUBESOLENOID_API'', ret = T_bool, callconv = Some Cdecl, fname = ''SC_CheckConnection'',
      params = [(T_ptr (T_const T_char), ''serialNo'')],
      summary = ''Check connection.'',
      returns = ReturnsValue ''true if the USB is listed by the ftdi controller'' \<rparr>,
    \<lparr> api = Some ''KCUBESOLENOID_API'', ret = T_void, callconv = Some Cdecl, fname = ''SC_Identify'',
      params = [(T_ptr (T_const T_char), ''serialNo'')],
      summary = ''Sends a command to the device to make it identify iteself.'',
      returns = NoReturns \<rparr>,
    \<lparr> api = Some ''KCUBESOLENOID_API'', ret = T_short, callconv = Some Cdecl, fname = ''SC_RequestLEDswitches'',
      params = [(T_ptr (T_const T_char), ''serialNo'')],
      summary = ''Requests the LED indicator bits on cube.'',
      returns = ErrorCodeOrZero \<rparr>,
    \<lparr> api = Some ''KCUBESOLENOID_API'', ret = T_WORD, callconv = Some Cdecl, fname = ''SC_GetLEDswitches'',
      params = [(T_ptr (T_const T_char), ''serialNo'')],
      summary = ''Get the LED indicator bits on cube.'',
      returns = ReturnsValue ''Sum of: 8 to indicate moving 2 to indicate end of track and 1 to flash on identify command.'' \<rparr>,
    \<lparr> api = Some ''KCUBESOLENOID_API'', ret = T_short, callconv = Some Cdecl, fname = ''SC_SetLEDswitches'',
      params = [(T_ptr (T_const T_char), ''serialNo''), (T_WORD, ''LEDswitches'')],
      summary = ''Set the LED indicator bits on cube.'',
      returns = ErrorCodeOrZero \<rparr>,
    \<lparr> api = Some ''KCUBESOLENOID_API'', ret = T_short, callconv = Some Cdecl, fname = ''SC_GetHardwareInfo'',
      params = [(T_ptr (T_const T_char), ''serialNo''), (T_ptr T_char, ''modelNo''), (T_DWORD, ''sizeOfModelNo''), (T_ptr T_WORD, ''type''), (T_ptr T_WORD, ''numChannels''), (T_ptr T_char, ''notes''), (T_DWORD, ''sizeOfNotes''), (T_ptr T_DWORD, ''firmwareVersion''), (T_ptr T_WORD, ''hardwareVersion''), (T_ptr T_WORD, ''modificationState'')],
      summary = ''Gets the hardware information from the device.'',
      returns = ErrorCodeOrZero \<rparr>,
    \<lparr> api = Some ''KCUBESOLENOID_API'', ret = T_short, callconv = Some Cdecl, fname = ''SC_GetHardwareInfoBlock'',
      params = [(T_ptr (T_const T_char), ''serialNo''), (T_ptr (T_named ''TLI_HardwareInformation''), ''hardwareInfo'')],
      summary = ''Gets the hardware information in a block.'',
      returns = ErrorCodeOrZero \<rparr>,
    \<lparr> api = Some ''KCUBESOLENOID_API'', ret = T_short, callconv = Some Cdecl, fname = ''SC_RequestHubBay'',
      params = [(T_ptr (T_const T_char), ''serialNo'')],
      summary = ''Requests the hub bay number this device is fitted to.'',
      returns = ErrorCodeOrZero \<rparr>,
    \<lparr> api = Some ''KCUBESOLENOID_API'', ret = T_char, callconv = Some Cdecl, fname = ''SC_GetHubBay'',
      params = [(T_ptr (T_const T_char), ''serialNo'')],
      summary = ''Gets the hub bay number this device is fitted to.'',
      returns = ReturnsValue ''The number, 0x00 if unknown or 0xff if not on a hub.'' \<rparr>,
    \<lparr> api = Some ''KCUBESOLENOID_API'', ret = T_DWORD, callconv = Some Cdecl, fname = ''SC_GetSoftwareVersion'',
      params = [(T_ptr (T_const T_char), ''serialNo'')],
      summary = ''Gets version number of the device software.'',
      returns = ReturnsValue ''The device software version number made up of 4 byte parts.'' \<rparr>,
    \<lparr> api = Some ''KCUBESOLENOID_API'', ret = T_bool, callconv = Some Cdecl, fname = ''SC_LoadSettings'',
      params = [(T_ptr (T_const T_char), ''serialNo'')],
      summary = ''Update device with stored settings.'',
      returns = TrueIfSuccessfulFalseIfNot \<rparr>,
    \<lparr> api = Some ''KCUBESOLENOID_API'', ret = T_bool, callconv = Some Cdecl, fname = ''SC_PersistSettings'',
      params = [(T_ptr (T_const T_char), ''serialNo'')],
      summary = ''persist the devices current settings.'',
      returns = TrueIfSuccessfulFalseIfNot \<rparr>,
    \<lparr> api = Some ''KCUBESOLENOID_API'', ret = T_void, callconv = Some Cdecl, fname = ''SC_ClearMessageQueue'',
      params = [(T_ptr (T_const T_char), ''serialNo'')],
      summary = ''Clears the device message queue.'',
      returns = NoReturns \<rparr>,
    \<lparr> api = Some ''KCUBESOLENOID_API'', ret = T_void, callconv = Some Cdecl, fname = ''SC_RegisterMessageCallback'',
      params = [(T_ptr (T_const T_char), ''serialNo''), (T_funptr T_void [], ''functionPointer'')],
      summary = ''Registers a callback on the message queue.'',
      returns = NoReturns \<rparr>,
    \<lparr> api = Some ''KCUBESOLENOID_API'', ret = T_int, callconv = Some Cdecl, fname = ''SC_MessageQueueSize'',
      params = [(T_ptr (T_const T_char), ''serialNo'')],
      summary = ''Gets the MessageQueue size.'',
      returns = ReturnsValue ''number of messages in the queue.'' \<rparr>,
    \<lparr> api = Some ''KCUBESOLENOID_API'', ret = T_bool, callconv = Some Cdecl, fname = ''SC_GetNextMessage'',
      params = [(T_ptr (T_const T_char), ''serialNo''), (T_ptr T_WORD, ''messageType''), (T_ptr T_WORD, ''messageID''), (T_ptr T_DWORD, ''messageData'')],
      summary = ''Get the next MessageQueue item.'',
      returns = TrueIfSuccessfulFalseIfNot \<rparr>,
    \<lparr> api = Some ''KCUBESOLENOID_API'', ret = T_bool, callconv = Some Cdecl, fname = ''SC_WaitForMessage'',
      params = [(T_ptr (T_const T_char), ''serialNo''), (T_ptr T_WORD, ''messageType''), (T_ptr T_WORD, ''messageID''), (T_ptr T_DWORD, ''messageData'')],
      summary = ''Wait for next MessageQueue item.'',
      returns = TrueIfSuccessfulFalseIfNot \<rparr>,
    \<lparr> api = Some ''KCUBESOLENOID_API'', ret = T_bool, callconv = Some Cdecl, fname = ''SC_StartPolling'',
      params = [(T_ptr (T_const T_char), ''serialNo''), (T_int, ''milliseconds'')],
      summary = ''Starts the internal polling loop which continuously requests position and status.'',
      returns = TrueIfSuccessfulFalseIfNot \<rparr>,
    \<lparr> api = Some ''KCUBESOLENOID_API'', ret = T_long, callconv = Some Cdecl, fname = ''SC_PollingDuration'',
      params = [(T_ptr (T_const T_char), ''serialNo'')],
      summary = ''Gets the polling loop duration.'',
      returns = ReturnsValue ''The time between polls in milliseconds or 0 if polling is not active.'' \<rparr>,
    \<lparr> api = Some ''KCUBESOLENOID_API'', ret = T_void, callconv = Some Cdecl, fname = ''SC_StopPolling'',
      params = [(T_ptr (T_const T_char), ''serialNo'')],
      summary = ''Stops the internal polling loop.'',
      returns = NoReturns \<rparr>,
    \<lparr> api = Some ''KCUBESOLENOID_API'', ret = T_bool, callconv = Some Cdecl, fname = ''SC_TimeSinceLastMsgReceived'',
      params = [(T_ptr (T_const T_char), ''serialNo''), (T_ref T_int64, ''lastUpdateTimeMS'')],
      summary = ''Gets the time in milliseconds since tha last message was received from the device.'',
      returns = ReturnsValue ''True if monitoring is enabled otherwize False.'' \<rparr>,
    \<lparr> api = Some ''KCUBESOLENOID_API'', ret = T_void, callconv = Some Cdecl, fname = ''SC_EnableLastMsgTimer'',
      params = [(T_ptr (T_const T_char), ''serialNo''), (T_bool, ''enable''), (T_int32, ''lastMsgTimeout'')],
      summary = ''Enables the last message monitoring timer.'',
      returns = NoReturns \<rparr>,
    \<lparr> api = Some ''KCUBESOLENOID_API'', ret = T_bool, callconv = Some Cdecl, fname = ''SC_HasLastMsgTimerOverrun'',
      params = [(T_ptr (T_const T_char), ''serialNo'')],
      summary = ''Queries if the time since the last message has exceeded the lastMsgTimeout set by <see cref="SC_EnableLastMsgTimer(char const * serialNo, bool enable, __int32 lastMsgTimeout )"/>.'',
      returns = ReturnsValue ''True if last message timer has elapsed, False if monitoring is not enabled or if time of last message received is less than lastMsgTimeout.'' \<rparr>,
    \<lparr> api = Some ''KCUBESOLENOID_API'', ret = T_short, callconv = Some Cdecl, fname = ''SC_RequestSettings'',
      params = [(T_ptr (T_const T_char), ''serialNo'')],
      summary = ''Requests that all settings are download from device.'',
      returns = ErrorCodeOrZero \<rparr>,
    \<lparr> api = Some ''KCUBESOLENOID_API'', ret = T_short, callconv = Some Cdecl, fname = ''SC_RequestStatus'',
      params = [(T_ptr (T_const T_char), ''serialNo'')],
      summary = ''Requests the status from the device.'',
      returns = ErrorCodeOrZero \<rparr>,
    \<lparr> api = Some ''KCUBESOLENOID_API'', ret = T_short, callconv = Some Cdecl, fname = ''SC_RequestStatusBits'',
      params = [(T_ptr (T_const T_char), ''serialNo'')],
      summary = ''Request the status bits which identify the current device state.'',
      returns = ErrorCodeOrZero \<rparr>,
    \<lparr> api = Some ''KCUBESOLENOID_API'', ret = T_DWORD, callconv = Some Cdecl, fname = ''SC_GetStatusBits'',
      params = [(T_ptr (T_const T_char), ''serialNo'')],
      summary = ''Get the current status bits.'',
      returns = ReturnsValue ''The status bits from the device'' \<rparr>,
    \<lparr> api = Some ''KCUBESOLENOID_API'', ret = T_short, callconv = Some Cdecl, fname = ''SC_RequestOperatingMode'',
      params = [(T_ptr (T_const T_char), ''serialNo'')],
      summary = ''Requests the Operating Mode.'',
      returns = ErrorCodeOrZero \<rparr>,
    \<lparr> api = Some ''KCUBESOLENOID_API'', ret = T_named ''SC_OperatingModes'', callconv = Some Cdecl, fname = ''SC_GetOperatingMode'',
      params = [(T_ptr (T_const T_char), ''serialNo'')],
      summary = ''Gets the Operating Mode.'',
      returns = ReturnsValue ''The current operating mode.'' \<rparr>,
    \<lparr> api = Some ''KCUBESOLENOID_API'', ret = T_short, callconv = Some Cdecl, fname = ''SC_SetOperatingMode'',
      params = [(T_ptr (T_const T_char), ''serialNo''), (T_named ''SC_OperatingModes'', ''mode'')],
      summary = ''Sets the Operating Mode.'',
      returns = ErrorCodeOrZero \<rparr>,
    \<lparr> api = Some ''KCUBESOLENOID_API'', ret = T_named ''SC_SolenoidStates'', callconv = Some Cdecl, fname = ''SC_GetSolenoidState'',
      params = [(T_ptr (T_const T_char), ''serialNo'')],
      summary = ''Gets the current solenoid state.'',
      returns = ReturnsValue ''The current solenoid state.'' \<rparr>,
    \<lparr> api = Some ''KCUBESOLENOID_API'', ret = T_short, callconv = Some Cdecl, fname = ''SC_RequestOperatingState'',
      params = [(T_ptr (T_const T_char), ''serialNo'')],
      summary = ''Requests the operating state.'',
      returns = ErrorCodeOrZero \<rparr>,
    \<lparr> api = Some ''KCUBESOLENOID_API'', ret = T_named ''SC_OperatingStates'', callconv = Some Cdecl, fname = ''SC_GetOperatingState'',
      params = [(T_ptr (T_const T_char), ''serialNo'')],
      summary = ''Gets the current operating state.'',
      returns = ReturnsValue ''The current operating state.'' \<rparr>,
    \<lparr> api = Some ''KCUBESOLENOID_API'', ret = T_short, callconv = Some Cdecl, fname = ''SC_SetOperatingState'',
      params = [(T_ptr (T_const T_char), ''serialNo''), (T_named ''SC_OperatingStates'', ''state'')],
      summary = ''Sets the operating state.'',
      returns = ErrorCodeOrZero \<rparr>,
    \<lparr> api = Some ''KCUBESOLENOID_API'', ret = T_short, callconv = Some Cdecl, fname = ''SC_RequestCycleParams'',
      params = [(T_ptr (T_const T_char), ''serialNo'')],
      summary = ''Requests the cycle parameters.'',
      returns = ErrorCodeOrZero \<rparr>,
    \<lparr> api = Some ''KCUBESOLENOID_API'', ret = T_short, callconv = Some Cdecl, fname = ''SC_GetCycleParams'',
      params = [(T_ptr (T_const T_char), ''serialNo''), (T_ptr T_unsigned_int, ''onTime''), (T_ptr T_unsigned_int, ''offTime''), (T_ptr T_unsigned_int, ''numCycles'')],
      summary = ''Gets the cycle parameters.'',
      returns = ErrorCodeOrZero \<rparr>,
    \<lparr> api = Some ''KCUBESOLENOID_API'', ret = T_short, callconv = Some Cdecl, fname = ''SC_SetCycleParams'',
      params = [(T_ptr (T_const T_char), ''serialNo''), (T_unsigned_int, ''onTime''), (T_unsigned_int, ''offTime''), (T_unsigned_int, ''numCycles'')],
      summary = ''Sets the cycle parameters.'',
      returns = ErrorCodeOrZero \<rparr>,
    \<lparr> api = Some ''KCUBESOLENOID_API'', ret = T_short, callconv = Some Cdecl, fname = ''SC_GetCycleParamsBlock'',
      params = [(T_ptr (T_const T_char), ''serialNo''), (T_ptr (T_named ''SC_CycleParameters''), ''cycleParams'')],
      summary = ''Gets the cycle parameters.'',
      returns = ErrorCodeOrZero \<rparr>,
    \<lparr> api = Some ''KCUBESOLENOID_API'', ret = T_short, callconv = Some Cdecl, fname = ''SC_SetCycleParamsBlock'',
      params = [(T_ptr (T_const T_char), ''serialNo''), (T_ptr (T_named ''SC_CycleParameters''), ''cycleParams'')],
      summary = ''Sets the cycle parameters.'',
      returns = ErrorCodeOrZero \<rparr>,
    \<lparr> api = Some ''KCUBESOLENOID_API'', ret = T_short, callconv = Some Cdecl, fname = ''SC_RequestMMIParams'',
      params = [(T_ptr (T_const T_char), ''serialNo'')],
      summary = ''Requests the MMI Parameters for the KCube Display Interface.'',
      returns = ErrorCodeOrZero \<rparr>,
    \<lparr> api = Some ''KCUBESOLENOID_API'', ret = T_short, callconv = Some Cdecl, fname = ''SC_GetMMIParamsExt'',
      params = [(T_ptr (T_const T_char), ''serialNo''), (T_ptr T_int16, ''displayIntensity''), (T_ptr T_int16, ''displayTimeout''), (T_ptr T_int16, ''displayDimIntensity'')],
      summary = ''Get the MMI Parameters for the KCube Display Interface.'',
      returns = ErrorCodeOrZero \<rparr>,
    \<lparr> api = Some ''KCUBESOLENOID_API'', ret = T_short, callconv = Some Cdecl, fname = ''SC_GetMMIParams'',
      params = [(T_ptr (T_const T_char), ''serialNo''), (T_ptr T_int16, ''displayIntensity'')],
      summary = ''Get the MMI Parameters for the KCube Display Interface.'',
      returns = ErrorCodeOrZero \<rparr>,
    \<lparr> api = Some ''KCUBESOLENOID_API'', ret = T_short, callconv = Some Cdecl, fname = ''SC_SetMMIParamsExt'',
      params = [(T_ptr (T_const T_char), ''serialNo''), (T_int16, ''displayIntensity''), (T_int16, ''displayTimeout''), (T_int16, ''displayDimIntensity'')],
      summary = ''Set the MMI Parameters for the KCube Display Interface.'',
      returns = ErrorCodeOrZero \<rparr>,
    \<lparr> api = Some ''KCUBESOLENOID_API'', ret = T_short, callconv = Some Cdecl, fname = ''SC_SetMMIParams'',
      params = [(T_ptr (T_const T_char), ''serialNo''), (T_int16, ''displayIntensity'')],
      summary = ''Set the MMI Parameters for the KCube Display Interface.'',
      returns = ErrorCodeOrZero \<rparr>,
    \<lparr> api = Some ''KCUBESOLENOID_API'', ret = T_short, callconv = Some Cdecl, fname = ''SC_GetMMIParamsBlock'',
      params = [(T_ptr (T_const T_char), ''serialNo''), (T_ptr (T_named ''KSC_MMIParams''), ''mmiParams'')],
      summary = ''Gets the MMI parameters for the device.'',
      returns = ErrorCodeOrZero \<rparr>,
    \<lparr> api = Some ''KCUBESOLENOID_API'', ret = T_short, callconv = Some Cdecl, fname = ''SC_SetMMIParamsBlock'',
      params = [(T_ptr (T_const T_char), ''serialNo''), (T_ptr (T_named ''KSC_MMIParams''), ''mmiParams'')],
      summary = ''Sets the MMI parameters for the device.'',
      returns = ErrorCodeOrZero \<rparr>,
    \<lparr> api = Some ''KCUBESOLENOID_API'', ret = T_short, callconv = Some Cdecl, fname = ''SC_RequestTriggerConfigParams'',
      params = [(T_ptr (T_const T_char), ''serialNo'')],
      summary = ''Requests the Trigger Configuration Parameters.'',
      returns = ErrorCodeOrZero \<rparr>,
    \<lparr> api = Some ''KCUBESOLENOID_API'', ret = T_short, callconv = Some Cdecl, fname = ''SC_GetTriggerConfigParams'',
      params = [(T_ptr (T_const T_char), ''serialNo''), (T_ptr (T_named ''KSC_TriggerPortMode''), ''trigger1Mode''), (T_ptr (T_named ''KSC_TriggerPortPolarity''), ''trigger1Polarity''), (T_ptr (T_named ''KSC_TriggerPortMode''), ''trigger2Mode''), (T_ptr (T_named ''KSC_TriggerPortPolarity''), ''trigger2Polarity'')],
      summary = ''Get the Trigger Configuration Parameters.'',
      returns = ErrorCodeOrZero \<rparr>,
    \<lparr> api = Some ''KCUBESOLENOID_API'', ret = T_short, callconv = Some Cdecl, fname = ''SC_SetTriggerConfigParams'',
      params = [(T_ptr (T_const T_char), ''serialNo''), (T_named ''KSC_TriggerPortMode'', ''trigger1Mode''), (T_named ''KSC_TriggerPortPolarity'', ''trigger1Polarity''), (T_named ''KSC_TriggerPortMode'', ''trigger2Mode''), (T_named ''KSC_TriggerPortPolarity'', ''trigger2Polarity'')],
      summary = ''Set the Trigger Configuration Parameters.'',
      returns = ErrorCodeOrZero \<rparr>,
    \<lparr> api = Some ''KCUBESOLENOID_API'', ret = T_short, callconv = Some Cdecl, fname = ''SC_GetTriggerConfigParamsBlock'',
      params = [(T_ptr (T_const T_char), ''serialNo''), (T_ptr (T_named ''KSC_TriggerConfig''), ''triggerConfigParams'')],
      summary = ''Gets the trigger configuration parameters block.'',
      returns = ErrorCodeOrZero \<rparr>,
    \<lparr> api = Some ''KCUBESOLENOID_API'', ret = T_short, callconv = Some Cdecl, fname = ''SC_SetTriggerConfigParamsBlock'',
      params = [(T_ptr (T_const T_char), ''serialNo''), (T_ptr (T_named ''KSC_TriggerConfig''), ''triggerConfigParams'')],
      summary = ''Sets the trigger configuration parameters block.'',
      returns = ErrorCodeOrZero \<rparr>,
    \<lparr> api = Some ''KCUBESOLENOID_API'', ret = T_short, callconv = Some Cdecl, fname = ''SC_RequestDigitalOutputs'',
      params = [(T_ptr (T_const T_char), ''serialNo'')],
      summary = ''Requests the digital output bits.'',
      returns = ErrorCodeOrZero \<rparr>,
    \<lparr> api = Some ''KCUBESOLENOID_API'', ret = T_byte, callconv = Some Cdecl, fname = ''SC_GetDigitalOutputs'',
      params = [(T_ptr (T_const T_char), ''serialNo'')],
      summary = ''Gets the digital output bits.'',
      returns = ReturnsValue ''Bit mask of states of the 4 digital output pins.'' \<rparr>,
    \<lparr> api = Some ''KCUBESOLENOID_API'', ret = T_short, callconv = Some Cdecl, fname = ''SC_SetDigitalOutputs'',
      params = [(T_ptr (T_const T_char), ''serialNo''), (T_byte, ''outputsBits'')],
      summary = ''Sets the digital output bits.'',
      returns = ErrorCodeOrZero \<rparr>
  ]\<close>

text \<open>The \<^verbatim>\<open>extern "C"\<close> block of \<^verbatim>\<open>Thorlabs.MotionControl.KCube.Solenoid.h\<close>, in source order.\<close>

definition solenoid_header :: "item list" where
  \<open>solenoid_header =
    [EnumDecl solenoid_FT_Status,
     EnumDecl solenoid_MOT_MotorTypes,
     PragmaPack (Some 1),
     StructDecl solenoid_TLI_DeviceInfo,
     StructDecl solenoid_TLI_HardwareInformation,
     StructDecl solenoid_SC_CycleParameters,
     EnumDecl solenoid_SC_OperatingModes,
     EnumDecl solenoid_SC_OperatingStates,
     EnumDecl solenoid_SC_SolenoidStates,
     EnumDecl solenoid_KSC_TriggerPortMode,
     EnumDecl solenoid_KSC_TriggerPortPolarity,
     StructDecl solenoid_KSC_MMIParams,
     StructDecl solenoid_KSC_TriggerConfig,
     PragmaPack None]
    @ map Prototype solenoid_prototypes\<close>

section \<open>Helper facts\<close>

lemmas laser_type_defs =
  laser_FT_Status_def laser_MOT_MotorTypes_def laser_TLI_DeviceInfo_def
  laser_TLI_HardwareInformation_def laser_LS_InputSourceFlags_def laser_KLS_MMIParams_def
  laser_KLS_OpMode_def laser_KLS_TriggerMode_def laser_KLS_TrigPolarity_def
  laser_KLS_TrigIOParams_def

lemmas solenoid_type_defs =
  solenoid_FT_Status_def solenoid_MOT_MotorTypes_def solenoid_TLI_DeviceInfo_def
  solenoid_TLI_HardwareInformation_def solenoid_SC_CycleParameters_def
  solenoid_SC_OperatingModes_def solenoid_SC_OperatingStates_def
  solenoid_SC_SolenoidStates_def solenoid_KSC_TriggerPortMode_def
  solenoid_KSC_TriggerPortPolarity_def solenoid_KSC_MMIParams_def
  solenoid_KSC_TriggerConfig_def

lemma enums_of_prototypes: "enums_of (map Prototype fs) = []"
  by (induction fs) simp_all

lemma structs_of_prototypes: "structs_of (map Prototype fs) = []"
  by (induction fs) simp_all

lemma type_names_prototypes: "type_names (map Prototype fs) = []"
  by (induction fs) simp_all

lemma structs_with_pack_prototypes: "structs_with_pack d c (map Prototype fs) = []"
  by (induction fs) simp_all

lemma functions_of_prototypes: "functions_of (map Prototype fs) = fs"
  by (induction fs) simp_all

lemma has_body_prototypes: "filter has_body (map Prototype fs) = []"
  by (induction fs) simp_all

lemma laser_enums:
  "enums_of laser_header =
    [laser_FT_Status, laser_MOT_MotorTypes, laser_LS_InputSourceFlags, laser_KLS_OpMode,
     laser_KLS_TriggerMode, laser_KLS_TrigPolarity]"
  by (simp add: laser_header_def enums_of_prototypes)

lemma solenoid_enums:
  "enums_of solenoid_header =
    [solenoid_FT_Status, solenoid_MOT_MotorTypes, solenoid_SC_OperatingModes,
     solenoid_SC_OperatingStates, solenoid_SC_SolenoidStates, solenoid_KSC_TriggerPortMode,
     solenoid_KSC_TriggerPortPolarity]"
  by (simp add: solenoid_header_def enums_of_prototypes)

lemma laser_structs:
  "structs_of laser_header =
    [laser_TLI_DeviceInfo, laser_TLI_HardwareInformation, laser_KLS_MMIParams,
     laser_KLS_TrigIOParams]"
  by (simp add: laser_header_def structs_of_prototypes)

lemma solenoid_structs:
  "structs_of solenoid_header =
    [solenoid_TLI_DeviceInfo, solenoid_TLI_HardwareInformation, solenoid_SC_CycleParameters,
     solenoid_KSC_MMIParams, solenoid_KSC_TriggerConfig]"
  by (simp add: solenoid_header_def structs_of_prototypes)

lemma laser_structs_with_pack:
  "structs_with_pack d d laser_header =
    [(laser_TLI_DeviceInfo, 1), (laser_TLI_HardwareInformation, 1), (laser_KLS_MMIParams, d),
     (laser_KLS_TrigIOParams, d)]"
  by (simp add: laser_header_def structs_with_pack_prototypes)

lemma solenoid_structs_with_pack:
  "structs_with_pack d d solenoid_header =
    [(solenoid_TLI_DeviceInfo, 1), (solenoid_TLI_HardwareInformation, 1),
     (solenoid_SC_CycleParameters, 1), (solenoid_KSC_MMIParams, 1),
     (solenoid_KSC_TriggerConfig, 1)]"
  by (simp add: solenoid_header_def structs_with_pack_prototypes)

lemma laser_functions: "functions_of laser_header = laser_prototypes"
  by (simp add: laser_header_def functions_of_prototypes)

lemma solenoid_functions: "functions_of solenoid_header = solenoid_prototypes"
  by (simp add: solenoid_header_def functions_of_prototypes)

lemma laser_find_enum:
  "find_enum laser_header ''FT_Status'' = Some laser_FT_Status"
  "find_enum laser_header ''MOT_MotorTypes'' = Some laser_MOT_MotorTypes"
  "find_enum laser_header ''KLS_TriggerMode'' = Some laser_KLS_TriggerMode"
  "find_enum laser_header ''KLS_TrigPolarity'' = Some laser_KLS_TrigPolarity"
  by (simp_all add: find_enum_def laser_enums laser_type_defs)

lemma solenoid_find_enum:
  "find_enum solenoid_header ''FT_Status'' = Some solenoid_FT_Status"
  "find_enum solenoid_header ''MOT_MotorTypes'' = Some solenoid_MOT_MotorTypes"
  "find_enum solenoid_header ''KSC_TriggerPortMode'' = Some solenoid_KSC_TriggerPortMode"
  "find_enum solenoid_header ''KSC_TriggerPortPolarity'' =
     Some solenoid_KSC_TriggerPortPolarity"
  by (simp_all add: find_enum_def solenoid_enums solenoid_type_defs)

lemma enum_sizes:
  "enum_size laser_MOT_MotorTypes = Some 4"
  "enum_size laser_KLS_TriggerMode = Some 2"
  "enum_size laser_KLS_TrigPolarity = Some 2"
  "enum_size solenoid_MOT_MotorTypes = Some 4"
  "enum_size solenoid_KSC_TriggerPortMode = Some 2"
  "enum_size solenoid_KSC_TriggerPortPolarity = Some 2"
  by (simp_all add: enum_size_def laser_type_defs solenoid_type_defs)

section \<open>The error codes\<close>

text \<open>
  Claim C1. In both headers the enumeration \<^verbatim>\<open>FT_Status\<close> gives 0 to success
  (\<^verbatim>\<open>FT_OK\<close>) and exactly the eight nonzero codes 1 to 8, in this order, to: invalid
  handle, device not found, device not opened, I/O error, insufficient resources, invalid
  parameter, device not present, incorrect device.
\<close>

theorem FT_Status_codes:
  "map_option enum_values (find_enum laser_header ''FT_Status'') =
     Some [(''FT_OK'', 0), (''FT_InvalidHandle'', 1), (''FT_DeviceNotFound'', 2),
           (''FT_DeviceNotOpened'', 3), (''FT_IOError'', 4), (''FT_InsufficientResources'', 5),
           (''FT_InvalidParameter'', 6), (''FT_DeviceNotPresent'', 7),
           (''FT_IncorrectDevice'', 8)]
   \<and> map_option enum_values (find_enum solenoid_header ''FT_Status'') =
     Some [(''FT_OK'', 0), (''FT_InvalidHandle'', 1), (''FT_DeviceNotFound'', 2),
           (''FT_DeviceNotOpened'', 3), (''FT_IOError'', 4), (''FT_InsufficientResources'', 5),
           (''FT_InvalidParameter'', 6), (''FT_DeviceNotPresent'', 7),
           (''FT_IncorrectDevice'', 8)]
   \<and> map snd (filter (\<lambda>(n, v). v \<noteq> 0) (enum_values laser_FT_Status)) =
       [1, 2, 3, 4, 5, 6, 7, 8]
   \<and> map snd (filter (\<lambda>(n, v). v \<noteq> 0) (enum_values solenoid_FT_Status)) =
       [1, 2, 3, 4, 5, 6, 7, 8]"
  by (simp add: laser_find_enum solenoid_find_enum enum_values_def
      laser_FT_Status_def solenoid_FT_Status_def)

section \<open>Struct layout\<close>

lemma laser_places:
  "place_fields laser_header 1 0 (members laser_TLI_DeviceInfo) =
     Some [(''typeID'', 0, 4), (''description'', 4, 65), (''serialNo'', 69, 9),
           (''PID'', 78, 4), (''isKnownType'', 82, 1), (''motorType'', 83, 4),
           (''isPiezoDevice'', 87, 1), (''isLaser'', 88, 1), (''isCustomType'', 89, 1),
           (''isRack'', 90, 1), (''maxChannels'', 91, 2)]"
  "place_fields laser_header 1 0 (members laser_TLI_HardwareInformation) =
     Some [(''serialNumber'', 0, 4), (''modelNumber'', 4, 8), (''type'', 12, 2),
           (''firmwareVersion'', 14, 4), (''notes'', 18, 48),
           (''deviceDependantData'', 66, 12), (''hardwareVersion'', 78, 2),
           (''modificationState'', 80, 2), (''numChannels'', 82, 2)]"
  by code_simp+

lemma solenoid_places:
  "place_fields solenoid_header 1 0 (members solenoid_TLI_DeviceInfo) =
     Some [(''typeID'', 0, 4), (''description'', 4, 65), (''serialNo'', 69, 9),
           (''PID'', 78, 4), (''isKnownType'', 82, 1), (''motorType'', 83, 4),
           (''isPiezoDevice'', 87, 1), (''isLaser'', 88, 1), (''isCustomType'', 89, 1),
           (''isRack'', 90, 1), (''maxChannels'', 91, 2)]"
  "place_fields solenoid_header 1 0 (members solenoid_TLI_HardwareInformation) =
     Some [(''serialNumber'', 0, 4), (''modelNumber'', 4, 8), (''type'', 12, 2),
           (''firmwareVersion'', 14, 4), (''notes'', 18, 48),
           (''deviceDependantData'', 66, 12), (''hardwareVersion'', 78, 2),
           (''modificationState'', 80, 2), (''numChannels'', 82, 2)]"
  by code_simp+

lemma struct_sizes:
  "struct_size laser_header 1 laser_TLI_DeviceInfo = Some 93"
  "struct_size laser_header 1 laser_TLI_HardwareInformation = Some 84"
  "struct_size solenoid_header 1 solenoid_TLI_DeviceInfo = Some 93"
  "struct_size solenoid_header 1 solenoid_TLI_HardwareInformation = Some 84"
  by code_simp+

lemma laser_find_struct:
  "find_struct d laser_header ''TLI_DeviceInfo'' = Some (laser_TLI_DeviceInfo, 1)"
  "find_struct d laser_header ''TLI_HardwareInformation'' =
     Some (laser_TLI_HardwareInformation, 1)"
  by (simp_all add: find_struct_def laser_structs_with_pack laser_type_defs)

lemma solenoid_find_struct:
  "find_struct d solenoid_header ''TLI_DeviceInfo'' = Some (solenoid_TLI_DeviceInfo, 1)"
  "find_struct d solenoid_header ''TLI_HardwareInformation'' =
     Some (solenoid_TLI_HardwareInformation, 1)"
  by (simp_all add: find_struct_def solenoid_structs_with_pack solenoid_type_defs)

lemma laser_find_late_struct:
  "find_struct d laser_header ''KLS_MMIParams'' = Some (laser_KLS_MMIParams, d)"
  "find_struct d laser_header ''KLS_TrigIOParams'' = Some (laser_KLS_TrigIOParams, d)"
  by (simp_all add: find_struct_def laser_structs_with_pack laser_type_defs)

lemma solenoid_find_device_struct:
  "find_struct d solenoid_header ''SC_CycleParameters'' = Some (solenoid_SC_CycleParameters, 1)"
  "find_struct d solenoid_header ''KSC_MMIParams'' = Some (solenoid_KSC_MMIParams, 1)"
  "find_struct d solenoid_header ''KSC_TriggerConfig'' = Some (solenoid_KSC_TriggerConfig, 1)"
  by (simp_all add: find_struct_def solenoid_structs_with_pack solenoid_type_defs)

lemma laser_MMIParams_places:
  "place_fields laser_header 1 0 (members laser_KLS_MMIParams) =
     Some [(''displayIntensity'', 0, 2), (''reserved'', 2, 6)]"
  "place_fields laser_header 2 0 (members laser_KLS_MMIParams) =
     Some [(''displayIntensity'', 0, 2), (''reserved'', 2, 6)]"
  "place_fields laser_header 4 0 (members laser_KLS_MMIParams) =
     Some [(''displayIntensity'', 0, 2), (''reserved'', 2, 6)]"
  "place_fields laser_header 8 0 (members laser_KLS_MMIParams) =
     Some [(''displayIntensity'', 0, 2), (''reserved'', 2, 6)]"
  "place_fields laser_header 16 0 (members laser_KLS_MMIParams) =
     Some [(''displayIntensity'', 0, 2), (''reserved'', 2, 6)]"
  by code_simp+

lemma laser_TrigIOParams_places:
  "place_fields laser_header 1 0 (members laser_KLS_TrigIOParams) =
     Some [(''mode1'', 0, 2), (''polarity1'', 2, 2), (''power1'', 4, 2), (''mode2'', 6, 2),
           (''polarity2'', 8, 2), (''power2'', 10, 2)]"
  "place_fields laser_header 2 0 (members laser_KLS_TrigIOParams) =
     Some [(''mode1'', 0, 2), (''polarity1'', 2, 2), (''power1'', 4, 2), (''mode2'', 6, 2),
           (''polarity2'', 8, 2), (''power2'', 10, 2)]"
  "place_fields laser_header 4 0 (members laser_KLS_TrigIOParams) =
     Some [(''mode1'', 0, 2), (''polarity1'', 2, 2), (''power1'', 4, 2), (''mode2'', 6, 2),
           (''polarity2'', 8, 2), (''power2'', 10, 2)]"
  "place_fields laser_header 8 0 (members laser_KLS_TrigIOParams) =
     Some [(''mode1'', 0, 2), (''polarity1'', 2, 2), (''power1'', 4, 2), (''mode2'', 6, 2),
           (''polarity2'', 8, 2), (''power2'', 10, 2)]"
  "place_fields laser_header 16 0 (members laser_KLS_TrigIOParams) =
     Some [(''mode1'', 0, 2), (''polarity1'', 2, 2), (''power1'', 4, 2), (''mode2'', 6, 2),
           (''polarity2'', 8, 2), (''power2'', 10, 2)]"
  by code_simp+

lemma laser_late_struct_sizes:
  "struct_size laser_header 1 laser_KLS_MMIParams = Some 8"
  "struct_size laser_header 2 laser_KLS_MMIParams = Some 8"
  "struct_size laser_header 4 laser_KLS_MMIParams = Some 8"
  "struct_size laser_header 8 laser_KLS_MMIParams = Some 8"
  "struct_size laser_header 16 laser_KLS_MMIParams = Some 8"
  "struct_size laser_header 1 laser_KLS_TrigIOParams = Some 12"
  "struct_size laser_header 2 laser_KLS_TrigIOParams = Some 12"
  "struct_size laser_header 4 laser_KLS_TrigIOParams = Some 12"
  "struct_size laser_header 8 laser_KLS_TrigIOParams = Some 12"
  "struct_size laser_header 16 laser_KLS_TrigIOParams = Some 12"
  by code_simp+

lemma solenoid_device_places:
  "place_fields solenoid_header 1 0 (members solenoid_SC_CycleParameters) =
     Some [(''openTime'', 0, 4), (''closedTime'', 4, 4), (''numCycles'', 8, 4)]"
  "place_fields solenoid_header 1 0 (members solenoid_KSC_MMIParams) =
     Some [(''unused'', 0, 20), (''DisplayIntensity'', 20, 2), (''DisplayTimeout'', 22, 2),
           (''DisplayDimIntensity'', 24, 2), (''reserved'', 26, 8)]"
  "place_fields solenoid_header 1 0 (members solenoid_KSC_TriggerConfig) =
     Some [(''Trigger1Mode'', 0, 2), (''Trigger1Polarity'', 2, 2), (''Trigger2Mode'', 4, 2),
           (''Trigger2Polarity'', 6, 2), (''reserved'', 8, 12)]"
  by code_simp+

lemma solenoid_device_struct_sizes:
  "struct_size solenoid_header 1 solenoid_SC_CycleParameters = Some 12"
  "struct_size solenoid_header 1 solenoid_KSC_MMIParams = Some 34"
  "struct_size solenoid_header 1 solenoid_KSC_TriggerConfig = Some 20"
  by code_simp+

lemma laser_no_padding:
  "no_padding laser_header (laser_TLI_DeviceInfo, 1)"
  "no_padding laser_header (laser_TLI_HardwareInformation, 1)"
  "no_padding laser_header (laser_KLS_MMIParams, 1)"
  "no_padding laser_header (laser_KLS_MMIParams, 2)"
  "no_padding laser_header (laser_KLS_MMIParams, 4)"
  "no_padding laser_header (laser_KLS_MMIParams, 8)"
  "no_padding laser_header (laser_KLS_MMIParams, 16)"
  "no_padding laser_header (laser_KLS_TrigIOParams, 1)"
  "no_padding laser_header (laser_KLS_TrigIOParams, 2)"
  "no_padding laser_header (laser_KLS_TrigIOParams, 4)"
  "no_padding laser_header (laser_KLS_TrigIOParams, 8)"
  "no_padding laser_header (laser_KLS_TrigIOParams, 16)"
  by code_simp+

lemma solenoid_no_padding:
  "no_padding solenoid_header (solenoid_TLI_DeviceInfo, 1)"
  "no_padding solenoid_header (solenoid_TLI_HardwareInformation, 1)"
  "no_padding solenoid_header (solenoid_SC_CycleParameters, 1)"
  "no_padding solenoid_header (solenoid_KSC_MMIParams, 1)"
  "no_padding solenoid_header (solenoid_KSC_TriggerConfig, 1)"
  by code_simp+

text \<open>
  The placement rule does pad where a field is not aligned: at the default packing of 8
  \<^verbatim>\<open>motorType\<close> of \<^verbatim>\<open>TLI_DeviceInfo\<close> would move from offset 83 to 84. The structs below
  have no padding because of their pragmas and field widths, not because of the rule.
\<close>

lemma padding_without_pragma:
  "align_up 83 4 = 84"
  "\<not> no_padding laser_header (laser_TLI_DeviceInfo, 8)"
  by code_simp+

text \<open>
  Claim C2. Every struct of both headers (device info, hardware info block, MMI display
  parameters, trigger I/O configuration, cycle parameters) is laid out without padding: the
  offset of each declared field is the sum of the sizes of the fields before it, and the
  struct is as large as its fields together. This holds for \<^verbatim>\<open>KLS_MMIParams\<close> and
  \<^verbatim>\<open>KLS_TrigIOParams\<close> of the laser-source header too, which are declared after the
  \<^verbatim>\<open>#pragma pack()\<close> that ends the \<^verbatim>\<open>pack(1)\<close> region and so are laid out under the
  compiler's default packing \<open>d\<close>, whichever of 1, 2, 4, 8, 16 it is: all their fields are
  two bytes wide. The offsets and sizes of the five device-specific structs are given in
  full; those of \<^verbatim>\<open>TLI_DeviceInfo\<close> and \<^verbatim>\<open>TLI_HardwareInformation\<close> are 93 and 84 bytes.
\<close>

theorem structs_are_packed_without_padding:
  "list_all (\<lambda>d. list_all (no_padding laser_header) (structs_with_pack d d laser_header))
     pack_values
   \<and> list_all (\<lambda>d. list_all (no_padding solenoid_header)
        (structs_with_pack d d solenoid_header)) pack_values
   \<and> map (\<lambda>(s, p). (sname s, p)) (structs_with_pack d d laser_header) =
       [(''TLI_DeviceInfo'', 1), (''TLI_HardwareInformation'', 1), (''KLS_MMIParams'', d),
        (''KLS_TrigIOParams'', d)]
   \<and> map (\<lambda>(s, p). (sname s, p)) (structs_with_pack d d solenoid_header) =
       [(''TLI_DeviceInfo'', 1), (''TLI_HardwareInformation'', 1), (''SC_CycleParameters'', 1),
        (''KSC_MMIParams'', 1), (''KSC_TriggerConfig'', 1)]
   \<and> list_all (\<lambda>d.
         field_offsets d laser_header ''KLS_MMIParams'' =
           Some [(''displayIntensity'', 0), (''reserved'', 2)]
         \<and> sizeof_struct d laser_header ''KLS_MMIParams'' = Some 8) pack_values
   \<and> list_all (\<lambda>d.
         field_offsets d laser_header ''KLS_TrigIOParams'' =
           Some [(''mode1'', 0), (''polarity1'', 2), (''power1'', 4), (''mode2'', 6),
                 (''polarity2'', 8), (''power2'', 10)]
         \<and> sizeof_struct d laser_header ''KLS_TrigIOParams'' = Some 12) pack_values
   \<and> list_all (\<lambda>d.
         field_offsets d solenoid_header ''SC_CycleParameters'' =
           Some [(''openTime'', 0), (''closedTime'', 4), (''numCycles'', 8)]
         \<and> sizeof_struct d solenoid_header ''SC_CycleParameters'' = Some 12) pack_values
   \<and> list_all (\<lambda>d.
         field_offsets d solenoid_header ''KSC_MMIParams'' =
           Some [(''unused'', 0), (''DisplayIntensity'', 20), (''DisplayTimeout'', 22),
                 (''DisplayDimIntensity'', 24), (''reserved'', 26)]
         \<and> sizeof_struct d solenoid_header ''KSC_MMIParams'' = Some 34) pack_values
   \<and> list_all (\<lambda>d.
         field_offsets d solenoid_header ''KSC_TriggerConfig'' =
           Some [(''Trigger1Mode'', 0), (''Trigger1Polarity'', 2), (''Trigger2Mode'', 4),
                 (''Trigger2Polarity'', 6), (''reserved'', 8)]
         \<and> sizeof_struct d solenoid_header ''KSC_TriggerConfig'' = Some 20) pack_values
   \<and> list_all (\<lambda>d.
         sizeof_struct d laser_header ''TLI_DeviceInfo'' = Some 93
         \<and> sizeof_struct d solenoid_header ''TLI_DeviceInfo'' = Some 93
         \<and> sizeof_struct d laser_header ''TLI_HardwareInformation'' = Some 84
         \<and> sizeof_struct d solenoid_header ''TLI_HardwareInformation'' = Some 84) pack_values"
proof -
  have laser: "list_all (\<lambda>d. list_all (no_padding laser_header)
        (structs_with_pack d d laser_header)) pack_values"
    by (simp add: pack_values_def laser_structs_with_pack laser_no_padding del: One_nat_def)
  have solenoid: "list_all (\<lambda>d. list_all (no_padding solenoid_header)
        (structs_with_pack d d solenoid_header)) pack_values"
    by (simp add: pack_values_def solenoid_structs_with_pack solenoid_no_padding
        del: One_nat_def)
  have laser_names: "map (\<lambda>(s, p). (sname s, p)) (structs_with_pack d d laser_header) =
       [(''TLI_DeviceInfo'', 1), (''TLI_HardwareInformation'', 1), (''KLS_MMIParams'', d),
        (''KLS_TrigIOParams'', d)]"
    by (simp add: laser_structs_with_pack laser_type_defs)
  have solenoid_names: "map (\<lambda>(s, p). (sname s, p)) (structs_with_pack d d solenoid_header) =
       [(''TLI_DeviceInfo'', 1), (''TLI_HardwareInformation'', 1), (''SC_CycleParameters'', 1),
        (''KSC_MMIParams'', 1), (''KSC_TriggerConfig'', 1)]"
    by (simp add: solenoid_structs_with_pack solenoid_type_defs)
  have layouts:
    "list_all (\<lambda>d.
         field_offsets d laser_header ''KLS_MMIParams'' =
           Some [(''displayIntensity'', 0), (''reserved'', 2)]
         \<and> sizeof_struct d laser_header ''KLS_MMIParams'' = Some 8) pack_values"
    "list_all (\<lambda>d.
         field_offsets d laser_header ''KLS_TrigIOParams'' =
           Some [(''mode1'', 0), (''polarity1'', 2), (''power1'', 4), (''mode2'', 6),
                 (''polarity2'', 8), (''power2'', 10)]
         \<and> sizeof_struct d laser_header ''KLS_TrigIOParams'' = Some 12) pack_values"
    "list_all (\<lambda>d.
         field_offsets d solenoid_header ''SC_CycleParameters'' =
           Some [(''openTime'', 0), (''closedTime'', 4), (''numCycles'', 8)]
         \<and> sizeof_struct d solenoid_header ''SC_CycleParameters'' = Some 12) pack_values"
    "list_all (\<lambda>d.
         field_offsets d solenoid_header ''KSC_MMIParams'' =
           Some [(''unused'', 0), (''DisplayIntensity'', 20), (''DisplayTimeout'', 22),
                 (''DisplayDimIntensity'', 24), (''reserved'', 26)]
         \<and> sizeof_struct d solenoid_header ''KSC_MMIParams'' = Some 34) pack_values"
    "list_all (\<lambda>d.
         field_offsets d solenoid_header ''KSC_TriggerConfig'' =
           Some [(''Trigger1Mode'', 0), (''Trigger1Polarity'', 2), (''Trigger2Mode'', 4),
                 (''Trigger2Polarity'', 6), (''reserved'', 8)]
         \<and> sizeof_struct d solenoid_header ''KSC_TriggerConfig'' = Some 20) pack_values"
    "list_all (\<lambda>d.
         sizeof_struct d laser_header ''TLI_DeviceInfo'' = Some 93
         \<and> sizeof_struct d solenoid_header ''TLI_DeviceInfo'' = Some 93
         \<and> sizeof_struct d laser_header ''TLI_HardwareInformation'' = Some 84
         \<and> sizeof_struct d solenoid_header ''TLI_HardwareInformation'' = Some 84) pack_values"
    by (simp_all add: pack_values_def field_offsets_def sizeof_struct_def
        laser_find_struct solenoid_find_struct laser_find_late_struct
        solenoid_find_device_struct laser_MMIParams_places laser_TrigIOParams_places
        laser_late_struct_sizes solenoid_device_places solenoid_device_struct_sizes
        struct_sizes del: One_nat_def)
  from laser solenoid laser_names solenoid_names layouts show ?thesis
    by (intro conjI)
qed

text \<open>
  Claim C9. Under the \<^verbatim>\<open>#pragma pack(1)\<close> in force at their declarations, in both headers
  \<^verbatim>\<open>sizeof(TLI_DeviceInfo)\<close> is 93 bytes, with \<^verbatim>\<open>typeID\<close> at offset 0, \<^verbatim>\<open>description\<close>
  at 4, \<^verbatim>\<open>serialNo\<close> at 69, \<^verbatim>\<open>PID\<close> at 78, \<^verbatim>\<open>isKnownType\<close> at 82, \<^verbatim>\<open>motorType\<close> at 83
  (four bytes) and \<^verbatim>\<open>maxChannels\<close> at 91; and \<^verbatim>\<open>sizeof(TLI_HardwareInformation)\<close> is 84
  bytes, with \<^verbatim>\<open>serialNumber\<close> at 0, \<^verbatim>\<open>modelNumber\<close> at 4, \<^verbatim>\<open>type\<close> at 12,
  \<^verbatim>\<open>firmwareVersion\<close> at 14, \<^verbatim>\<open>notes\<close> at 18, \<^verbatim>\<open>deviceDependantData\<close> at 66,
  \<^verbatim>\<open>hardwareVersion\<close> at 78, \<^verbatim>\<open>modificationState\<close> at 80 and \<^verbatim>\<open>numChannels\<close> at 82.
  The default packing \<open>d\<close> plays no part.
\<close>

theorem device_and_hardware_info_layout:
  "field_offsets d laser_header ''TLI_DeviceInfo'' =
     Some [(''typeID'', 0), (''description'', 4), (''serialNo'', 69), (''PID'', 78),
           (''isKnownType'', 82), (''motorType'', 83), (''isPiezoDevice'', 87),
           (''isLaser'', 88), (''isCustomType'', 89), (''isRack'', 90), (''maxChannels'', 91)]
   \<and> field_offsets d solenoid_header ''TLI_DeviceInfo'' =
       field_offsets d laser_header ''TLI_DeviceInfo''
   \<and> sizeof laser_header (T_named ''MOT_MotorTypes'') = Some 4
   \<and> sizeof solenoid_header (T_named ''MOT_MotorTypes'') = Some 4
   \<and> sizeof_struct d laser_header ''TLI_DeviceInfo'' = Some 93
   \<and> sizeof_struct d solenoid_header ''TLI_DeviceInfo'' = Some 93
   \<and> field_offsets d laser_header ''TLI_HardwareInformation'' =
     Some [(''serialNumber'', 0), (''modelNumber'', 4), (''type'', 12),
           (''firmwareVersion'', 14), (''notes'', 18), (''deviceDependantData'', 66),
           (''hardwareVersion'', 78), (''modificationState'', 80), (''numChannels'', 82)]
   \<and> field_offsets d solenoid_header ''TLI_HardwareInformation'' =
       field_offsets d laser_header ''TLI_HardwareInformation''
   \<and> sizeof_struct d laser_header ''TLI_HardwareInformation'' = Some 84
   \<and> sizeof_struct d solenoid_header ''TLI_HardwareInformation'' = Some 84"
  by (simp add: field_offsets_def sizeof_struct_def laser_find_struct solenoid_find_struct
      laser_places solenoid_places struct_sizes laser_find_enum solenoid_find_enum enum_sizes
      del: One_nat_def)

section \<open>The declarations the two headers share\<close>

text \<open>
  Claim C4. The type declarations the two headers share are identical: \<^verbatim>\<open>FT_Status\<close> and
  \<^verbatim>\<open>MOT_MotorTypes\<close> have the same enumerator names and values in both files, and
  \<^verbatim>\<open>TLI_DeviceInfo\<close> and \<^verbatim>\<open>TLI_HardwareInformation\<close> the same field names, types, array
  lengths and field order. These four are all the type names the headers have in common.
\<close>

theorem shared_declarations_identical:
  "find_enum laser_header ''FT_Status'' = find_enum solenoid_header ''FT_Status''
   \<and> find_enum laser_header ''FT_Status'' = Some laser_FT_Status
   \<and> find_enum laser_header ''MOT_MotorTypes'' = find_enum solenoid_header ''MOT_MotorTypes''
   \<and> find_enum laser_header ''MOT_MotorTypes'' = Some laser_MOT_MotorTypes
   \<and> enum_values laser_FT_Status = enum_values solenoid_FT_Status
   \<and> enum_values laser_MOT_MotorTypes = enum_values solenoid_MOT_MotorTypes
   \<and> find_struct_decl laser_header ''TLI_DeviceInfo'' =
       find_struct_decl solenoid_header ''TLI_DeviceInfo''
   \<and> find_struct_decl laser_header ''TLI_DeviceInfo'' = Some laser_TLI_DeviceInfo
   \<and> find_struct_decl laser_header ''TLI_HardwareInformation'' =
       find_struct_decl solenoid_header ''TLI_HardwareInformation''
   \<and> find_struct_decl laser_header ''TLI_HardwareInformation'' =
       Some laser_TLI_HardwareInformation
   \<and> filter (\<lambda>n. n \<in> set (type_names solenoid_header)) (type_names laser_header) =
       [''FT_Status'', ''MOT_MotorTypes'', ''TLI_DeviceInfo'', ''TLI_HardwareInformation'']"
proof -
  have same: "laser_FT_Status = solenoid_FT_Status"
    "laser_MOT_MotorTypes = solenoid_MOT_MotorTypes"
    "laser_TLI_DeviceInfo = solenoid_TLI_DeviceInfo"
    "laser_TLI_HardwareInformation = solenoid_TLI_HardwareInformation"
    by (simp_all add: laser_type_defs solenoid_type_defs)
  have structs: "find_struct_decl laser_header ''TLI_DeviceInfo'' = Some laser_TLI_DeviceInfo"
    "find_struct_decl solenoid_header ''TLI_DeviceInfo'' = Some solenoid_TLI_DeviceInfo"
    "find_struct_decl laser_header ''TLI_HardwareInformation'' =
       Some laser_TLI_HardwareInformation"
    "find_struct_decl solenoid_header ''TLI_HardwareInformation'' =
       Some solenoid_TLI_HardwareInformation"
    by (simp_all add: find_struct_decl_def laser_structs solenoid_structs
        laser_type_defs solenoid_type_defs)
  have names: "filter (\<lambda>n. n \<in> set (type_names solenoid_header)) (type_names laser_header) =
       [''FT_Status'', ''MOT_MotorTypes'', ''TLI_DeviceInfo'', ''TLI_HardwareInformation'']"
    by (simp add: laser_header_def solenoid_header_def type_names_prototypes
        laser_type_defs solenoid_type_defs)
  show ?thesis
    using same structs names by (simp add: laser_find_enum solenoid_find_enum)
qed

section \<open>The function surface\<close>

text \<open>
  Claim C3. Every function of the \<^verbatim>\<open>extern "C"\<close> blocks of both headers is a prototype
  without a body: the blocks hold packing pragmas, enumerations, structs and 65 prototypes
  each, and no function definition, so no loop, state transition, polling or message-queue
  implementation.
\<close>

theorem headers_hold_declarations_only:
  "filter has_body laser_header = []
   \<and> filter has_body solenoid_header = []
   \<and> length (functions_of laser_header) = 65
   \<and> length (functions_of solenoid_header) = 65"
proof -
  have count: "length laser_prototypes = 65" "length solenoid_prototypes = 65"
    by (simp_all add: laser_prototypes_def solenoid_prototypes_def)
  have bodies: "filter has_body laser_header = []" "filter has_body solenoid_header = []"
    by (simp_all add: laser_header_def solenoid_header_def has_body_prototypes)
  from count bodies show ?thesis
    by (simp add: laser_functions solenoid_functions)
qed

lemma laser_markers:
  "list_all (\<lambda>f. callconv f = Some Cdecl \<and> api f = Some ''KLASERSOURCE_API'')
     laser_prototypes"
  by code_simp

lemma solenoid_markers:
  "list_all (\<lambda>f. callconv f = Some Cdecl \<and> api f = Some ''KCUBESOLENOID_API'')
     solenoid_prototypes"
  by code_simp

text \<open>
  Claim C5. Every function declared in the \<^verbatim>\<open>extern "C"\<close> block of either header carries
  \<^verbatim>\<open>__cdecl\<close> and the header's import/export macro: \<^verbatim>\<open>KLASERSOURCE_API\<close>, which is
  \<^verbatim>\<open>__declspec(dllexport)\<close> when \<^verbatim>\<open>KLASERSOURCEDLL_EXPORTS\<close> is defined and
  \<^verbatim>\<open>__declspec(dllimport)\<close> otherwise, and likewise \<^verbatim>\<open>KCUBESOLENOID_API\<close> by
  \<^verbatim>\<open>KCUBESOLENOIDDLL_EXPORTS\<close>. No function lacks either marker.
\<close>

theorem every_function_is_cdecl_and_dll_marked:
  "list_all (\<lambda>f. callconv f = Some Cdecl
        \<and> api f = Some ''KLASERSOURCE_API''
        \<and> expand_api laser_api_macro defined (api f) =
            Some (if ''KLASERSOURCEDLL_EXPORTS'' \<in> set defined then Dllexport else Dllimport))
     (functions_of laser_header)
   \<and> list_all (\<lambda>f. callconv f = Some Cdecl
        \<and> api f = Some ''KCUBESOLENOID_API''
        \<and> expand_api solenoid_api_macro defined (api f) =
            Some (if ''KCUBESOLENOIDDLL_EXPORTS'' \<in> set defined then Dllexport else Dllimport))
     (functions_of solenoid_header)"
proof -
  have l: "expand_api laser_api_macro defined (Some ''KLASERSOURCE_API'') =
      Some (if ''KLASERSOURCEDLL_EXPORTS'' \<in> set defined then Dllexport else Dllimport)"
    by (simp add: laser_api_macro_def)
  have s: "expand_api solenoid_api_macro defined (Some ''KCUBESOLENOID_API'') =
      Some (if ''KCUBESOLENOIDDLL_EXPORTS'' \<in> set defined then Dllexport else Dllimport)"
    by (simp add: solenoid_api_macro_def)
  show ?thesis
    using laser_markers solenoid_markers l s
    unfolding laser_functions solenoid_functions list_all_iff
    by metis
qed

text \<open>
  Claim C6. The function surface of each header has the five capability groups: device
  discovery (\<^verbatim>\<open>TLI_BuildDeviceList\<close> and the \<^verbatim>\<open>TLI_GetDeviceList\<close> family), connection
  lifecycle (\<^verbatim>\<open>Open\<close>, \<^verbatim>\<open>Close\<close>, \<^verbatim>\<open>CheckConnection\<close> with the prefix \<^verbatim>\<open>LS_\<close> or
  \<^verbatim>\<open>SC_\<close>), parameter get/set pairs, polling (\<^verbatim>\<open>StartPolling\<close>, \<^verbatim>\<open>StopPolling\<close>,
  \<^verbatim>\<open>PollingDuration\<close>) and the message queue (\<^verbatim>\<open>ClearMessageQueue\<close>,
  \<^verbatim>\<open>RegisterMessageCallback\<close>, \<^verbatim>\<open>MessageQueueSize\<close>, \<^verbatim>\<open>GetNextMessage\<close>,
  \<^verbatim>\<open>WaitForMessage\<close>).
\<close>

theorem capability_groups_declared:
  "filter (\<lambda>n. n = ''TLI_BuildDeviceList'' \<or> starts_with ''TLI_GetDeviceList'' n)
       (map fname (functions_of laser_header)) =
     [''TLI_BuildDeviceList'', ''TLI_GetDeviceListSize'', ''TLI_GetDeviceList'',
      ''TLI_GetDeviceListByType'', ''TLI_GetDeviceListByTypes'', ''TLI_GetDeviceListExt'',
      ''TLI_GetDeviceListByTypeExt'', ''TLI_GetDeviceListByTypesExt'']
   \<and> filter (\<lambda>n. n = ''TLI_BuildDeviceList'' \<or> starts_with ''TLI_GetDeviceList'' n)
       (map fname (functions_of solenoid_header)) =
     [''TLI_BuildDeviceList'', ''TLI_GetDeviceListSize'', ''TLI_GetDeviceList'',
      ''TLI_GetDeviceListByType'', ''TLI_GetDeviceListByTypes'', ''TLI_GetDeviceListExt'',
      ''TLI_GetDeviceListByTypeExt'', ''TLI_GetDeviceListByTypesExt'']
   \<and> list_all (declares laser_header) [''LS_Open'', ''LS_Close'', ''LS_CheckConnection'']
   \<and> list_all (declares solenoid_header) [''SC_Open'', ''SC_Close'', ''SC_CheckConnection'']
   \<and> get_set_pairs ''LS_'' laser_header =
     [''ControlSource'', ''MMIParams'', ''MMIParamsBlock'', ''OPMode'', ''TrigIOParams'',
      ''TrigIOParamsBlock'']
   \<and> get_set_pairs ''SC_'' solenoid_header =
     [''LEDswitches'', ''OperatingMode'', ''OperatingState'', ''CycleParams'',
      ''CycleParamsBlock'', ''MMIParamsExt'', ''MMIParams'', ''MMIParamsBlock'',
      ''TriggerConfigParams'', ''TriggerConfigParamsBlock'', ''DigitalOutputs'']
   \<and> list_all (declares laser_header)
       [''LS_StartPolling'', ''LS_StopPolling'', ''LS_PollingDuration'']
   \<and> list_all (declares solenoid_header)
       [''SC_StartPolling'', ''SC_StopPolling'', ''SC_PollingDuration'']
   \<and> list_all (declares laser_header)
       [''LS_ClearMessageQueue'', ''LS_RegisterMessageCallback'', ''LS_MessageQueueSize'',
        ''LS_GetNextMessage'', ''LS_WaitForMessage'']
   \<and> list_all (declares solenoid_header)
       [''SC_ClearMessageQueue'', ''SC_RegisterMessageCallback'', ''SC_MessageQueueSize'',
        ''SC_GetNextMessage'', ''SC_WaitForMessage'']"
  by (intro conjI; code_simp)

text \<open>
  Claim C7. The message-queue surface of each header is exactly one callback registration
  (\<^verbatim>\<open>LS_RegisterMessageCallback\<close>, \<^verbatim>\<open>SC_RegisterMessageCallback\<close>) and the queue
  accessors \<^verbatim>\<open>ClearMessageQueue\<close>, \<^verbatim>\<open>MessageQueueSize\<close>, \<^verbatim>\<open>GetNextMessage\<close> and
  \<^verbatim>\<open>WaitForMessage\<close>; the polling loop is reached only through \<^verbatim>\<open>StartPolling\<close>,
  \<^verbatim>\<open>PollingDuration\<close> and \<^verbatim>\<open>StopPolling\<close>. No other declared function is about the queue
  or the polling loop, by its name or by its summary, and no other takes a callback.
\<close>

theorem queue_and_polling_surface:
  "map fname (filter about_queue (functions_of laser_header)) =
     [''LS_ClearMessageQueue'', ''LS_RegisterMessageCallback'', ''LS_MessageQueueSize'',
      ''LS_GetNextMessage'', ''LS_WaitForMessage'']
   \<and> map fname (filter about_queue (functions_of solenoid_header)) =
     [''SC_ClearMessageQueue'', ''SC_RegisterMessageCallback'', ''SC_MessageQueueSize'',
      ''SC_GetNextMessage'', ''SC_WaitForMessage'']
   \<and> map fname (filter takes_callback (functions_of laser_header)) =
     [''LS_RegisterMessageCallback'']
   \<and> map fname (filter takes_callback (functions_of solenoid_header)) =
     [''SC_RegisterMessageCallback'']
   \<and> map fname (filter about_polling (functions_of laser_header)) =
     [''LS_StartPolling'', ''LS_PollingDuration'', ''LS_StopPolling'']
   \<and> map fname (filter about_polling (functions_of solenoid_header)) =
     [''SC_StartPolling'', ''SC_PollingDuration'', ''SC_StopPolling'']"
  by (intro conjI; code_simp)

section \<open>Return conventions\<close>

text \<open>
  Claim C8. In both headers \<^verbatim>\<open>TLI_GetDeviceInfo\<close> returns \<^verbatim>\<open>short\<close> and is documented to
  return 1 if successful and 0 if not. That inverts the error-code convention of the
  \<^verbatim>\<open>short\<close>-returning calls, zero (\<^verbatim>\<open>FT_OK\<close>) for success and an error code otherwise,
  which 37 of them document in the laser-source header and 39 in the solenoid header.
  \<^verbatim>\<open>TLI_GetDeviceInfo\<close> is the only function documented the other way round; the
  remaining \<^verbatim>\<open>short\<close>-returning calls return a count or a setting, not a status.
\<close>

theorem TLI_GetDeviceInfo_inverts_error_convention:
  "map (\<lambda>f. (ret f, returns f))
       (filter (\<lambda>f. fname f = ''TLI_GetDeviceInfo'') (functions_of laser_header)) =
     [(T_short, OneIfSuccessfulZeroIfNot)]
   \<and> map (\<lambda>f. (ret f, returns f))
       (filter (\<lambda>f. fname f = ''TLI_GetDeviceInfo'') (functions_of solenoid_header)) =
     [(T_short, OneIfSuccessfulZeroIfNot)]
   \<and> map fname (filter (\<lambda>f. returns f = OneIfSuccessfulZeroIfNot)
       (functions_of laser_header)) = [''TLI_GetDeviceInfo'']
   \<and> map fname (filter (\<lambda>f. returns f = OneIfSuccessfulZeroIfNot)
       (functions_of solenoid_header)) = [''TLI_GetDeviceInfo'']
   \<and> map (\<lambda>f. (fname f, returns f))
       (filter (\<lambda>f. ret f = T_short \<and> returns f \<noteq> ErrorCodeOrZero)
         (functions_of laser_header)) =
     [(''TLI_GetDeviceListSize'', ReturnsValue ''Number of devices in device list.''),
      (''TLI_GetDeviceInfo'', OneIfSuccessfulZeroIfNot),
      (''LS_GetMMIParams'', ReturnsValue ''The Display Intensity.'')]
   \<and> map (\<lambda>f. (fname f, returns f))
       (filter (\<lambda>f. ret f = T_short \<and> returns f \<noteq> ErrorCodeOrZero)
         (functions_of solenoid_header)) =
     [(''TLI_GetDeviceListSize'', ReturnsValue ''Number of devices in device list.''),
      (''TLI_GetDeviceInfo'', OneIfSuccessfulZeroIfNot)]
   \<and> length (filter (\<lambda>f. ret f = T_short \<and> returns f = ErrorCodeOrZero)
       (functions_of laser_header)) = 37
   \<and> length (filter (\<lambda>f. ret f = T_short \<and> returns f = ErrorCodeOrZero)
       (functions_of solenoid_header)) = 39
   \<and> filter (\<lambda>f. returns f = ErrorCodeOrZero \<and> ret f \<noteq> T_short)
       (functions_of laser_header @ functions_of solenoid_header) = []
   \<and> map_of (enum_values laser_FT_Status) ''FT_OK'' = Some 0
   \<and> map_of (enum_values solenoid_FT_Status) ''FT_OK'' = Some 0"
  by (intro conjI; code_simp)

text \<open>
  Claim C10. In each header exactly six operations return \<^verbatim>\<open>void\<close>, and so report neither
  success nor failure: \<^verbatim>\<open>Close\<close>, \<^verbatim>\<open>Identify\<close>, \<^verbatim>\<open>ClearMessageQueue\<close>,
  \<^verbatim>\<open>RegisterMessageCallback\<close>, \<^verbatim>\<open>StopPolling\<close> and \<^verbatim>\<open>EnableLastMsgTimer\<close>, with the prefix
  \<^verbatim>\<open>LS_\<close> or \<^verbatim>\<open>SC_\<close>. Each of the other 59 returns a value.
\<close>

theorem void_returning_operations:
  "map fname (filter (\<lambda>f. ret f = T_void) (functions_of laser_header)) =
     [''LS_Close'', ''LS_Identify'', ''LS_ClearMessageQueue'', ''LS_RegisterMessageCallback'',
      ''LS_StopPolling'', ''LS_EnableLastMsgTimer'']
   \<and> map fname (filter (\<lambda>f. ret f = T_void) (functions_of solenoid_header)) =
     [''SC_Close'', ''SC_Identify'', ''SC_ClearMessageQueue'', ''SC_RegisterMessageCallback'',
      ''SC_StopPolling'', ''SC_EnableLastMsgTimer'']
   \<and> length (filter (\<lambda>f. ret f \<noteq> T_void) (functions_of laser_header)) = 59
   \<and> length (filter (\<lambda>f. ret f \<noteq> T_void) (functions_of solenoid_header)) = 59"
  by (intro conjI; code_simp)


end
